theory Spec2Isabelle
  imports Main "HOL-Library.Sublist" "HOL-Library.AList"
begin

section \<open>String operations of the Python runtime used by the SDK\<close>

text \<open>
  \<^verbatim>\<open>s.lstrip('/')\<close> removes every leading slash, \<^verbatim>\<open>s.rstrip('/')\<close> every trailing one.
\<close>

definition lstrip :: "char \<Rightarrow> string \<Rightarrow> string" where
  "lstrip c s = dropWhile (\<lambda>x. x = c) s"

definition rstrip :: "char \<Rightarrow> string \<Rightarrow> string" where
  "rstrip c s = rev (dropWhile (\<lambda>x. x = c) (rev s))"

text \<open>
  \<^verbatim>\<open>s.split(sep)\<close> for a one-character separator: cut at every occurrence; the result
  always has at least one part (\<^verbatim>\<open>''.split('/') == ['']\<close>).
\<close>

fun split :: "char \<Rightarrow> string \<Rightarrow> string list" where
  "split c [] = [[]]"
| "split c (x # xs) =
     (if x = c then [] # split c xs
      else (case split c xs of [] \<Rightarrow> [[x]] | p # ps \<Rightarrow> (x # p) # ps))"

text \<open>\<^verbatim>\<open>s.lower()\<close> on the ASCII letters.\<close>

definition lower_char :: "char \<Rightarrow> char" where
  "lower_char c =
     (case map_of (zip ''ABCDEFGHIJKLMNOPQRSTUVWXYZ'' ''abcdefghijklmnopqrstuvwxyz'') c of
        None \<Rightarrow> c
      | Some l \<Rightarrow> l)"

definition lower :: "string \<Rightarrow> string" where
  "lower s = map lower_char s"

text \<open>\<^verbatim>\<open>pat in s\<close> on strings: \<open>pat\<close> occurs in \<open>s\<close> as a contiguous block.\<close>

fun contains :: "string \<Rightarrow> string \<Rightarrow> bool" where
  "contains pat [] = (pat = [])"
| "contains pat (x # xs) = (prefix pat (x # xs) \<or> contains pat xs)"

text \<open>\<^verbatim>\<open>str(n)\<close> for an integer: decimal digits, with a minus sign when negative.\<close>

definition digit_char :: "nat \<Rightarrow> char" where
  "digit_char d = ''0123456789'' ! d"

function str_nat :: "nat \<Rightarrow> string" where
  "str_nat n = (if n < 10 then [digit_char n] else str_nat (n div 10) @ [digit_char (n mod 10)])"
  by pat_completeness auto
termination
  by (relation "measure id") auto

declare str_nat.simps [simp del]

definition str_int :: "int \<Rightarrow> string" where
  "str_int i = (if i < 0 then CHR ''-'' # str_nat (nat (- i)) else str_nat (nat i))"

section \<open>The client and its request URL\<close>

text \<open>
  \<^verbatim>\<open>PermastoreItClient.__init__\<close> stores the base URL with its trailing slashes removed,
  and the default timeout.
\<close>

record client =
  base_url :: string
  timeout :: int

definition PermastoreItClient :: "string \<Rightarrow> int \<Rightarrow> client" where
  "PermastoreItClient url t = \<lparr>base_url = rstrip CHR ''/'' url, timeout = t\<rparr>"

text \<open>The first line of \<^verbatim>\<open>_make_request\<close>: \<^verbatim>\<open>f"{self.base_url}/{endpoint.lstrip('/')}"\<close>.\<close>

definition request_url :: "client \<Rightarrow> string \<Rightarrow> string" where
  "request_url c endpoint = base_url c @ ''/'' @ lstrip CHR ''/'' endpoint"

section \<open>Decoded JSON values\<close>

text \<open>
  What \<^verbatim>\<open>response.json()\<close> returns. An object is an association list standing for a
  Python dict (its keys are distinct, in insertion order); \<open>JNull\<close> is also Python's
  \<^verbatim>\<open>None\<close>. Numbers are integers here: the code never computes with a number of a
  payload.
\<close>

datatype json =
    JNull
  | JBool bool
  | JInt int
  | JStr string
  | JArr "json list"
  | JObj "(string \<times> json) list"

text \<open>Python's truth value of a decoded value, and \<^verbatim>\<open>a or b\<close>.\<close>

fun truthy :: "json \<Rightarrow> bool" where
  "truthy JNull = False"
| "truthy (JBool b) = b"
| "truthy (JInt i) = (i \<noteq> 0)"
| "truthy (JStr s) = (s \<noteq> [])"
| "truthy (JArr xs) = (xs \<noteq> [])"
| "truthy (JObj kvs) = (kvs \<noteq> [])"

definition py_or :: "json \<Rightarrow> json \<Rightarrow> json" where
  "py_or a b = (if truthy a then a else b)"

section \<open>Exceptions\<close>

text \<open>
  The SDK's exception classes with the attributes their constructors set, and the built-in
  exceptions the code can meet. \<open>PermastoreItError msg cause\<close> is the base class raised
  directly, always as \<^verbatim>\<open>raise PermastoreItError(f"msg{e}") from e\<close>: the message prefix
  and the cause. \<open>JSONDecodeError\<close> is the one of the HTTP library, raised by
  \<^verbatim>\<open>response.json()\<close>.
\<close>

datatype exn =
    APIError (status_code_of: int) (detail_of: json) (response_text_of: string)
  | FileNotFoundErrorOnServer (resource_id: string)
  | ZKPDisabledError
  | NetworkError string
  | PermastoreItError string exn
  | FileNotFoundError string
  | OSError string
  | ValueError string
  | NameError string
  | AttributeError string
  | TypeError string
  | JSONDecodeError

text \<open>
  \<^verbatim>\<open>APIError.__init__\<close>: the detail defaults to a message with the status when it is
  missing or falsy.
\<close>

definition APIError_init :: "int \<Rightarrow> json \<Rightarrow> string \<Rightarrow> exn" where
  "APIError_init status detail response_text =
     APIError status (py_or detail (JStr (''Server returned status '' @ str_int status)))
       response_text"

text \<open>
  \<^verbatim>\<open>isinstance(e, IOError)\<close>: the operating-system errors, and every exception of the
  HTTP library, whose base class derives from \<^verbatim>\<open>IOError\<close>. The SDK's own classes derive
  from \<^verbatim>\<open>Exception\<close> only.
\<close>

fun is_IOError :: "exn \<Rightarrow> bool" where
  "is_IOError (FileNotFoundError _) = True"
| "is_IOError (OSError _) = True"
| "is_IOError JSONDecodeError = True"
| "is_IOError _ = False"

text \<open>
  \<^verbatim>\<open>data.get(key)\<close>: only a dict has the method; a missing key gives \<^verbatim>\<open>None\<close>.
  \<^verbatim>\<open>data.get(key, default)\<close> gives the default for a missing key only.
\<close>

definition dict_get :: "json \<Rightarrow> string \<Rightarrow> exn + json" where
  "dict_get data key =
     (case data of
        JObj kvs \<Rightarrow> (case map_of kvs key of None \<Rightarrow> Inr JNull | Some v \<Rightarrow> Inr v)
      | _ \<Rightarrow> Inl (AttributeError ''get''))"

definition dict_get_default :: "json \<Rightarrow> string \<Rightarrow> json \<Rightarrow> exn + json" where
  "dict_get_default data key dflt =
     (case data of
        JObj kvs \<Rightarrow> (case map_of kvs key of None \<Rightarrow> Inr dflt | Some v \<Rightarrow> Inr v)
      | _ \<Rightarrow> Inl (AttributeError ''get''))"

text \<open>\<^verbatim>\<open>data[key] = value\<close>: only a dict (of the decoded values) takes a string key.\<close>

definition dict_set :: "json \<Rightarrow> string \<Rightarrow> json \<Rightarrow> exn + json" where
  "dict_set data key v =
     (case data of
        JObj kvs \<Rightarrow> Inr (JObj (AList.update key v kvs))
      | _ \<Rightarrow> Inl (TypeError ''item assignment''))"

section \<open>Requests, responses and the world outside the client\<close>

record request =
  http_method :: string
  url :: string
  req_timeout :: int
  params :: "(string \<times> json) list"
  files :: "(string \<times> string \<times> string \<times> string) list"
  stream :: bool

text \<open>
  A response as the code reads it: the status, the raw text, and what \<^verbatim>\<open>.json()\<close>
  gives (\<open>None\<close> when it raises \<open>JSONDecodeError\<close>).
\<close>

record response =
  status_code :: int
  raw_text :: string
  json_result :: "json option"

text \<open>
  \<^verbatim>\<open>response.ok\<close> of the HTTP library: false exactly for the client and server error
  statuses 400 to 599.
\<close>

definition ok :: "response \<Rightarrow> bool" where
  "ok r = (\<not> (400 \<le> status_code r \<and> status_code r < 600))"

definition response_json :: "response \<Rightarrow> exn + json" where
  "response_json r = (case json_result r of None \<Rightarrow> Inl JSONDecodeError | Some j \<Rightarrow> Inr j)"

text \<open>The three exception classes of the HTTP library that \<^verbatim>\<open>_make_request\<close> tells apart.\<close>

datatype transport_exn = Timeout string | ConnectionError string | RequestException string

text \<open>
  The mutable world: the requests sent so far (oldest first) and the regular files on
  disk with their contents.
\<close>

record world =
  sent :: "request list"
  disk :: "string \<rightharpoonup> string"

text \<open>
  What the client cannot decide: the answer of the network to a request (it may depend on
  the requests sent before), the table of \<^verbatim>\<open>mimetypes.guess_type\<close>, which paths can be
  opened for reading or writing, which directories \<^verbatim>\<open>os.makedirs\<close> can provide, the
  wall-clock time measured around the \<open>i\<close>-th timed call, Python's \<^verbatim>\<open>str()\<close> of a
  decoded value that is not a string, and what \<^verbatim>\<open>glob.glob\<close> finds for a pattern.
\<close>

record env =
  server :: "request list \<Rightarrow> request \<Rightarrow> transport_exn + response"
  guess_type :: "string \<Rightarrow> string option"
  readable :: "string \<Rightarrow> bool"
  writable :: "string \<Rightarrow> bool"
  makedirs_ok :: "string \<Rightarrow> bool"
  duration_ms :: "nat \<Rightarrow> json"
  repr :: "json \<Rightarrow> string"
  glob :: "string \<Rightarrow> exn + string list"

section \<open>The request helper\<close>

text \<open>The keyword arguments the SDK passes to \<^verbatim>\<open>_make_request\<close>.\<close>

record kwargs =
  kw_params :: "(string \<times> json) list"
  kw_files :: "(string \<times> string \<times> string \<times> string) list"
  kw_stream :: bool
  kw_timeout :: "int option"

definition no_kwargs :: kwargs where
  "no_kwargs = \<lparr>kw_params = [], kw_files = [], kw_stream = False, kw_timeout = None\<rparr>"

text \<open>
  The detail of a failed response: the \<^verbatim>\<open>detail\<close> member of the decoded body, or, when
  the body does not decode, its first 200 characters (a fixed message when it is empty).
  \<^verbatim>\<open>data.get\<close> is called on whatever the body decodes to.
\<close>

definition error_detail :: "response \<Rightarrow> exn + json" where
  "error_detail r =
     (case json_result r of
        Some data \<Rightarrow> dict_get data ''detail''
      | None \<Rightarrow>
          Inr (JStr (if raw_text r \<noteq> [] then take 200 (raw_text r)
                     else ''No detail provided (Status: '' @ str_int (status_code r) @ '')'')))"

text \<open>The exception \<^verbatim>\<open>_make_request\<close> raises for a response that is not \<open>ok\<close>.\<close>

definition raise_for_response :: "string \<Rightarrow> response \<Rightarrow> exn" where
  "raise_for_response endpoint r =
     (case error_detail r of
        Inl e \<Rightarrow> e
      | Inr detail \<Rightarrow>
          if status_code r = 404 then
            (let path_parts = split CHR ''/'' (lstrip CHR ''/'' endpoint)
             in if length path_parts = 2
                   \<and> path_parts ! 0 \<in> set [''download'', ''file-info'', ''zk-proof'']
                then FileNotFoundErrorOnServer (path_parts ! 1)
                else APIError_init (status_code r) (py_or detail (JStr ''Resource not found''))
                       (raw_text r))
          else if status_code r = 501 \<and> contains ''zkp'' (lower endpoint) then ZKPDisabledError
          else APIError_init (status_code r) detail (raw_text r))"

text \<open>
  The request \<^verbatim>\<open>_make_request\<close> hands to the session: the URL built from the base URL
  and the endpoint, and the default timeout unless the caller gave one.
\<close>

definition build_request :: "client \<Rightarrow> string \<Rightarrow> string \<Rightarrow> kwargs \<Rightarrow> request" where
  "build_request c meth endpoint kw =
     \<lparr>http_method = meth, url = request_url c endpoint,
      req_timeout = (case kw_timeout kw of None \<Rightarrow> timeout c | Some t \<Rightarrow> t),
      params = kw_params kw, files = kw_files kw, stream = kw_stream kw\<rparr>"

definition make_request ::
  "env \<Rightarrow> client \<Rightarrow> string \<Rightarrow> string \<Rightarrow> kwargs \<Rightarrow> world \<Rightarrow> (exn + response) \<times> world" where
  "make_request e c meth endpoint kw w =
     (let req = build_request c meth endpoint kw;
          u = url req;
          w' = w\<lparr>sent := sent w @ [req]\<rparr>
      in case server e (sent w) req of
           Inl (Timeout x) \<Rightarrow>
             (Inl (NetworkError (''Request timed out connecting to '' @ u @ '': '' @ x)), w')
         | Inl (ConnectionError x) \<Rightarrow>
             (Inl (NetworkError (''Connection error connecting to '' @ u @ '': '' @ x)), w')
         | Inl (RequestException x) \<Rightarrow>
             (Inl (NetworkError (''Network request error for '' @ u @ '': '' @ x)), w')
         | Inr r \<Rightarrow>
             if \<not> ok r then (Inl (raise_for_response endpoint r), w') else (Inr r, w'))"

section \<open>The public methods of the SDK\<close>

text \<open>A method that sends one request and returns the decoded body.\<close>

definition request_json ::
  "env \<Rightarrow> client \<Rightarrow> string \<Rightarrow> string \<Rightarrow> kwargs \<Rightarrow> world \<Rightarrow> (exn + json) \<times> world" where
  "request_json e c meth endpoint kw w =
     (case make_request e c meth endpoint kw w of
        (Inl x, w') \<Rightarrow> (Inl x, w')
      | (Inr r, w') \<Rightarrow> (response_json r, w'))"

definition get_status :: "env \<Rightarrow> client \<Rightarrow> world \<Rightarrow> (exn + json) \<times> world" where
  "get_status e c w = request_json e c ''GET'' ''/status'' no_kwargs w"

definition get_health :: "env \<Rightarrow> client \<Rightarrow> world \<Rightarrow> (exn + json) \<times> world" where
  "get_health e c w = request_json e c ''GET'' ''/health'' no_kwargs w"

definition get_file_info :: "env \<Rightarrow> client \<Rightarrow> string \<Rightarrow> world \<Rightarrow> (exn + json) \<times> world" where
  "get_file_info e c file_hash w =
     request_json e c ''GET'' (''/file-info/'' @ file_hash) no_kwargs w"

definition get_zk_proof :: "env \<Rightarrow> client \<Rightarrow> string \<Rightarrow> world \<Rightarrow> (exn + json) \<times> world" where
  "get_zk_proof e c file_hash w =
     request_json e c ''GET'' (''/zk-proof/'' @ file_hash) no_kwargs w"

text \<open>
  \<^verbatim>\<open>list_files\<close> and \<^verbatim>\<open>search\<close>. The limit has the type of its annotation
  (\<^verbatim>\<open>Optional[int]\<close>, \<^verbatim>\<open>int\<close>), so the \<^verbatim>\<open>isinstance(limit, int)\<close> half of the
  check holds and \<^verbatim>\<open>limit < 1\<close> decides.
\<close>

definition list_files :: "env \<Rightarrow> client \<Rightarrow> int option \<Rightarrow> world \<Rightarrow> (exn + json) \<times> world" where
  "list_files e c limit w =
     (case limit of
        None \<Rightarrow> request_json e c ''GET'' ''/files'' no_kwargs w
      | Some l \<Rightarrow>
          if l < 1 then (Inl (ValueError ''Limit must be a positive integer.''), w)
          else request_json e c ''GET'' ''/files'' (no_kwargs\<lparr>kw_params := [(''limit'', JInt l)]\<rparr>) w)"

definition search :: "env \<Rightarrow> client \<Rightarrow> string \<Rightarrow> int \<Rightarrow> world \<Rightarrow> (exn + json) \<times> world" where
  "search e c query limit w =
     (if limit < 1 then (Inl (ValueError ''Limit must be a positive integer.''), w)
      else request_json e c ''GET'' ''/search''
             (no_kwargs\<lparr>kw_params := [(''query'', JStr query), (''limit'', JInt limit)]\<rparr>) w)"

subsection \<open>Upload\<close>

text \<open>\<^verbatim>\<open>os.path.isfile\<close>, \<^verbatim>\<open>os.path.basename\<close> and \<^verbatim>\<open>os.path.join\<close> on POSIX paths.\<close>

definition isfile :: "world \<Rightarrow> string \<Rightarrow> bool" where
  "isfile w p = (disk w p \<noteq> None)"

definition basename :: "string \<Rightarrow> string" where
  "basename p = last (split CHR ''/'' p)"

definition path_join :: "string \<Rightarrow> string \<Rightarrow> string" where
  "path_join a b =
     (if b \<noteq> [] \<and> hd b = CHR ''/'' then b
      else if a = [] \<or> last a = CHR ''/'' then a @ b
      else a @ ''/'' @ b)"

text \<open>
  The warning of \<^verbatim>\<open>upload\<close> is \<^verbatim>\<open>print(..., file=sys.stderr)\<close>, in a module that
  imports \<^verbatim>\<open>requests\<close>, \<^verbatim>\<open>os\<close>, \<^verbatim>\<open>typing\<close> and \<^verbatim>\<open>mimetypes\<close> only: the
  name \<^verbatim>\<open>sys\<close> is not bound, and evaluating the argument raises \<open>NameError\<close> before
  anything is printed.
\<close>

definition print_warning :: "string \<Rightarrow> exn + unit" where
  "print_warning msg = Inl (NameError ''sys'')"

text \<open>\<^verbatim>\<open>open(file_path, 'rb')\<close>: the content of the file, or an operating-system error.\<close>

definition open_rb :: "env \<Rightarrow> world \<Rightarrow> string \<Rightarrow> exn + string" where
  "open_rb e w p =
     (case disk w p of
        None \<Rightarrow> Inl (FileNotFoundError p)
      | Some content \<Rightarrow> if readable e p then Inr content else Inl (OSError p))"

text \<open>
  The \<^verbatim>\<open>except IOError\<close> clause around the body of \<^verbatim>\<open>upload\<close>: it rewraps the
  exceptions that are instances of \<^verbatim>\<open>IOError\<close> and lets the others pass.
\<close>

definition upload_except :: "string \<Rightarrow> exn \<Rightarrow> exn" where
  "upload_except file_path x =
     (if is_IOError x
      then PermastoreItError (''Failed to read local file '' @ file_path @ '': '') x
      else x)"

definition upload :: "env \<Rightarrow> client \<Rightarrow> string \<Rightarrow> world \<Rightarrow> (exn + json) \<times> world" where
  "upload e c file_path w =
     (if \<not> isfile w file_path
      then (Inl (FileNotFoundError
                  (''Local file not found or is not a regular file: '' @ file_path)), w)
      else
        let file_name = basename file_path;
            guessed = guess_type e file_path;
            warned = (case guessed of
                        None \<Rightarrow>
                          print_warning (''Warning: Could not guess MIME type for '' @ file_name
                            @ ''. Sending as application/octet-stream'')
                      | Some _ \<Rightarrow> Inr ())
        in case warned of
             Inl x \<Rightarrow> (Inl x, w)
           | Inr _ \<Rightarrow>
               let content_type =
                     (case guessed of None \<Rightarrow> ''application/octet-stream'' | Some t \<Rightarrow> t)
               in case open_rb e w file_path of
                    Inl x \<Rightarrow> (Inl (upload_except file_path x), w)
                  | Inr f \<Rightarrow>
                      let upload_timeout = max (timeout c * 2) 120;
                          kw = no_kwargs\<lparr>kw_files := [(''file'', file_name, f, content_type)],
                                         kw_timeout := Some upload_timeout\<rparr>
                      in case request_json e c ''POST'' ''/upload'' kw w of
                           (Inl x, w') \<Rightarrow> (Inl (upload_except file_path x), w')
                         | (Inr j, w') \<Rightarrow> (Inr j, w'))"

subsection \<open>Download\<close>

text \<open>
  \<^verbatim>\<open>os.remove\<close> in the clean-up of \<^verbatim>\<open>download\<close>; its own failure is swallowed, so the
  clean-up never raises. Here the file is gone afterwards.
\<close>

definition remove_file :: "world \<Rightarrow> string \<Rightarrow> world" where
  "remove_file w p = w\<lparr>disk := (disk w)(p := None)\<rparr>"

text \<open>
  The two \<^verbatim>\<open>except\<close> clauses around the request and the write in \<^verbatim>\<open>download\<close>:
  \<^verbatim>\<open>except IOError\<close> first, then \<^verbatim>\<open>except Exception\<close>, which every exception of the
  model is an instance of. Both remove the target file and raise the base class.
\<close>

definition download_except :: "string \<Rightarrow> exn \<Rightarrow> world \<Rightarrow> (exn + string) \<times> world" where
  "download_except full_save_path x w =
     (if is_IOError x
      then (Inl (PermastoreItError
                   (''Failed to write downloaded file to '' @ full_save_path @ '': '') x),
            remove_file w full_save_path)
      else (Inl (PermastoreItError ''Unexpected error during download/save: '' x),
            remove_file w full_save_path))"

text \<open>
  Writing the streamed body to the target path. The body arrives whole: a transfer
  broken half-way is not part of the model.
\<close>

definition write_file :: "env \<Rightarrow> world \<Rightarrow> string \<Rightarrow> string \<Rightarrow> (exn + unit) \<times> world" where
  "write_file e w p content =
     (if writable e p then (Inr (), w\<lparr>disk := (disk w)(p \<mapsto> content)\<rparr>)
      else (Inl (OSError p), w))"

definition download ::
  "env \<Rightarrow> client \<Rightarrow> string \<Rightarrow> string \<Rightarrow> string option \<Rightarrow> world \<Rightarrow> (exn + string) \<times> world" where
  "download e c file_hash save_dir save_filename w =
     (let name = (case save_filename of
                    None \<Rightarrow> file_hash
                  | Some n \<Rightarrow> if n = [] then file_hash else n)
      in if \<not> makedirs_ok e save_dir
         then (Inl (PermastoreItError (''Failed to create save directory '' @ save_dir @ '': '')
                      (OSError save_dir)), w)
         else
           let full_save_path = path_join save_dir name
           in case make_request e c ''GET'' (''/download/'' @ file_hash)
                     (no_kwargs\<lparr>kw_stream := True\<rparr>) w of
                (Inl x, w') \<Rightarrow> download_except full_save_path x w'
              | (Inr r, w') \<Rightarrow>
                  (case write_file e w' full_save_path (raw_text r) of
                     (Inl x, w'') \<Rightarrow> download_except full_save_path x w''
                   | (Inr _, w'') \<Rightarrow> (Inr full_save_path, w'')))"

section \<open>The command-line layer\<close>

text \<open>
  The output format is a \<^verbatim>\<open>click.Choice(['text', 'json'])\<close>. Delays between attempts
  and the rendering library have no part in the control flow and are left out; what the
  commands compute from the data before rendering it stays, since it can raise.
\<close>

datatype output_format = FormatText | FormatJson

text \<open>\<^verbatim>\<open>str(e)\<close> of an exception, and \<^verbatim>\<open>str(v)\<close> of a decoded value.\<close>

definition py_str :: "env \<Rightarrow> json \<Rightarrow> string" where
  "py_str e v = (case v of JStr s \<Rightarrow> s | _ \<Rightarrow> repr e v)"

fun str_exn :: "env \<Rightarrow> exn \<Rightarrow> string" where
  "str_exn e (APIError status detail _) =
     ''API Error '' @ str_int status @ '': '' @ py_str e detail"
| "str_exn e (FileNotFoundErrorOnServer rid) =
     ''API Error 404: Resource '' @ [CHR 39] @ rid @ [CHR 39] @ '' not found on server.''"
| "str_exn e ZKPDisabledError = ''API Error 501: ZKP is not enabled on the target node.''"
| "str_exn e (NetworkError m) = m"
| "str_exn e (PermastoreItError m cause) = m @ str_exn e cause"
| "str_exn e (FileNotFoundError m) = m"
| "str_exn e (OSError m) = m"
| "str_exn e (ValueError m) = m"
| "str_exn e (NameError m) = m"
| "str_exn e (AttributeError m) = m"
| "str_exn e (TypeError m) = m"
| "str_exn e JSONDecodeError = ''JSONDecodeError''"

text \<open>
  \<^verbatim>\<open>handle_sdk_error\<close>: the message chosen by the \<^verbatim>\<open>isinstance\<close> chain (the two
  subclasses of \<^verbatim>\<open>APIError\<close> first), then \<^verbatim>\<open>sys.exit(1)\<close> or the message.
  \<open>Inl code\<close> is the exit. The messages are written without the markup of the
  rendering library.
\<close>

fun message_for :: "env \<Rightarrow> exn \<Rightarrow> string" where
  "message_for e (FileNotFoundErrorOnServer rid) =
     ''Resource '' @ rid @ '' not found on the server (404).''"
| "message_for e ZKPDisabledError = str_exn e ZKPDisabledError"
| "message_for e (APIError status detail t) =
     ''API Error ('' @ str_int status @ ''): '' @ py_str e detail"
| "message_for e (NetworkError m) = ''Network Error: '' @ m"
| "message_for e (FileNotFoundError m) = ''Local File Error: '' @ m"
| "message_for e (PermastoreItError m cause) =
     ''SDK Error: '' @ str_exn e (PermastoreItError m cause)"
| "message_for e x = ''An unexpected error occurred: '' @ str_exn e x"

definition handle_sdk_error :: "env \<Rightarrow> exn \<Rightarrow> bool \<Rightarrow> int + string" where
  "handle_sdk_error e x exit_on_error =
     (let message = message_for e x
      in if exit_on_error then Inl 1 else Inr message)"

text \<open>\<^verbatim>\<open>v.upper()\<close> and \<^verbatim>\<open>v.items()\<close>: only a string has the first, only a dict the second.\<close>

definition py_upper :: "json \<Rightarrow> exn + unit" where
  "py_upper v = (case v of JStr _ \<Rightarrow> Inr () | _ \<Rightarrow> Inl (AttributeError ''upper''))"

definition py_items :: "json \<Rightarrow> exn + unit" where
  "py_items v = (case v of JObj _ \<Rightarrow> Inr () | _ \<Rightarrow> Inl (AttributeError ''items''))"

text \<open>What a command leaves: its exit code and the JSON lines on standard output.\<close>

record cli_result =
  exit_code :: int
  stdout :: "json list"

subsection \<open>health\<close>

text \<open>
  The text rendering of the health report calls \<^verbatim>\<open>.upper()\<close> on the status (default
  \<^verbatim>\<open>'UNKNOWN'\<close>) and \<^verbatim>\<open>.items()\<close> on the components (default an empty dict).
\<close>

definition health_text :: "json \<Rightarrow> exn + unit" where
  "health_text result =
     (case dict_get_default result ''status'' (JStr ''UNKNOWN'') of
        Inl x \<Rightarrow> Inl x
      | Inr st \<Rightarrow>
          (case py_upper st of
             Inl x \<Rightarrow> Inl x
           | Inr _ \<Rightarrow>
               (case dict_get_default result ''components'' (JObj []) of
                  Inl x \<Rightarrow> Inl x
                | Inr components \<Rightarrow> py_items components)))"

text \<open>
  The body of the \<^verbatim>\<open>try\<close> of \<^verbatim>\<open>health\<close>: the exit code it sets and the lines it
  prints, or the exception it raises.
\<close>

definition health_try ::
  "env \<Rightarrow> client \<Rightarrow> output_format \<Rightarrow> world \<Rightarrow> (exn + cli_result) \<times> world" where
  "health_try e c fmt w =
     (case get_health e c w of
        (Inl x, w') \<Rightarrow> (Inl x, w')
      | (Inr result0, w') \<Rightarrow>
          (case dict_set result0 ''query_time_ms'' (duration_ms e 0) of
             Inl x \<Rightarrow> (Inl x, w')
           | Inr result \<Rightarrow>
               (case (if fmt = FormatJson then Inr () else health_text result) of
                  Inl x \<Rightarrow> (Inl x, w')
                | Inr _ \<Rightarrow>
                    (case dict_get result ''status'' of
                       Inl x \<Rightarrow> (Inl x, w')
                     | Inr st \<Rightarrow>
                         (Inr \<lparr>exit_code = (if st \<noteq> JStr ''healthy'' then 2 else 0),
                               stdout = (if fmt = FormatJson then [result] else [])\<rparr>, w')))))"

definition health :: "env \<Rightarrow> client \<Rightarrow> output_format \<Rightarrow> world \<Rightarrow> cli_result \<times> world" where
  "health e c fmt w =
     (case health_try e c fmt w of
        (Inl x, w') \<Rightarrow>
          (case handle_sdk_error e x True of
             Inl code \<Rightarrow> (\<lparr>exit_code = code, stdout = []\<rparr>, w')
           | Inr _ \<Rightarrow> (\<lparr>exit_code = 0, stdout = []\<rparr>, w'))
      | (Inr res, w') \<Rightarrow> (res, w'))"

subsection \<open>upload and download, repeated\<close>

text \<open>
  The records a repeated command collects in \<^verbatim>\<open>results_data\<close>.
\<close>

definition success_record :: "json \<Rightarrow> json" where
  "success_record result = JObj [(''success'', JBool True), (''result'', result)]"

definition failure_record :: "string \<Rightarrow> json \<Rightarrow> json" where
  "failure_record error_message t =
     JObj [(''success'', JBool False), (''error'', JStr error_message), (''time_ms'', t)]"

text \<open>
  The state of a repeat loop: the exit code once \<^verbatim>\<open>sys.exit\<close> was called, the records
  collected, and \<^verbatim>\<open>overall_success\<close>.
\<close>

record loop_state =
  exited :: "int option"
  results_data :: "json list"
  overall_success :: bool

definition loop_init :: loop_state where
  "loop_init = \<lparr>exited = None, results_data = [], overall_success = True\<rparr>"

text \<open>
  The text panel of an upload result calls \<^verbatim>\<open>.upper()\<close> on the status (default
  \<^verbatim>\<open>'N/A'\<close>).
\<close>

definition upload_text :: "json \<Rightarrow> exn + unit" where
  "upload_text result =
     (case dict_get_default result ''status'' (JStr ''N/A'') of
        Inl x \<Rightarrow> Inl x
      | Inr st \<Rightarrow> py_upper st)"

text \<open>
  The body of the \<^verbatim>\<open>try\<close> of one upload attempt: the records it appended, and the
  exception it raised, if any. The success record is appended before the panel is
  rendered.
\<close>

definition upload_try ::
  "env \<Rightarrow> client \<Rightarrow> string \<Rightarrow> output_format \<Rightarrow> nat \<Rightarrow> world
     \<Rightarrow> (json list \<times> exn option) \<times> world" where
  "upload_try e c file_path fmt i w =
     (case upload e c file_path w of
        (Inl x, w') \<Rightarrow> (([], Some x), w')
      | (Inr result0, w') \<Rightarrow>
          (case dict_set result0 ''upload_time_ms'' (duration_ms e i) of
             Inl x \<Rightarrow> (([], Some x), w')
           | Inr result \<Rightarrow>
               (case (if fmt = FormatText then upload_text result else Inr ()) of
                  Inl x \<Rightarrow> (([success_record result], Some x), w')
                | Inr _ \<Rightarrow> (([success_record result], None), w'))))"

text \<open>
  The body of the \<^verbatim>\<open>try\<close> of one download attempt. The target name has the attempt
  number as a suffix when the command repeats.
\<close>

definition download_try ::
  "env \<Rightarrow> client \<Rightarrow> string \<Rightarrow> string \<Rightarrow> string option \<Rightarrow> int \<Rightarrow> nat \<Rightarrow> world
     \<Rightarrow> (json list \<times> exn option) \<times> world" where
  "download_try e c file_hash out_dir name repeat i w =
     (let save_filename_base = (case name of
                                  None \<Rightarrow> file_hash
                                | Some n \<Rightarrow> if n = [] then file_hash else n);
          save_filename = (if repeat > 1 then save_filename_base @ ''.'' @ str_nat i
                           else save_filename_base)
      in if \<not> makedirs_ok e out_dir then (([], Some (OSError out_dir)), w)
         else
           (case download e c file_hash out_dir (Some save_filename) w of
              (Inl x, w') \<Rightarrow> (([], Some x), w')
            | (Inr downloaded_path, w') \<Rightarrow>
                (([success_record (JObj [(''downloaded_path'', JStr downloaded_path),
                                         (''download_time_ms'', duration_ms e i)])], None), w')))"

text \<open>
  One turn of the \<^verbatim>\<open>for i in range(repeat)\<close> loop around a \<^verbatim>\<open>try\<close> body, and the
  loop. The handler exits only when the command does not repeat; otherwise it records
  the failure and the loop goes on.
\<close>

definition loop_step ::
  "env \<Rightarrow> int \<Rightarrow> (nat \<Rightarrow> world \<Rightarrow> (json list \<times> exn option) \<times> world) \<Rightarrow> nat
     \<Rightarrow> loop_state \<Rightarrow> world \<Rightarrow> loop_state \<times> world" where
  "loop_step e repeat body i st w =
     (case body i w of
        ((added, None), w') \<Rightarrow> (st\<lparr>results_data := results_data st @ added\<rparr>, w')
      | ((added, Some x), w') \<Rightarrow>
          (case handle_sdk_error e x (repeat = 1) of
             Inl code \<Rightarrow>
               (st\<lparr>exited := Some code, results_data := results_data st @ added,
                    overall_success := False\<rparr>, w')
           | Inr error_message \<Rightarrow>
               (st\<lparr>results_data := results_data st @ added
                                        @ [failure_record error_message (duration_ms e i)],
                    overall_success := False\<rparr>, w')))"

fun repeat_loop ::
  "env \<Rightarrow> int \<Rightarrow> (nat \<Rightarrow> world \<Rightarrow> (json list \<times> exn option) \<times> world) \<Rightarrow> nat list
     \<Rightarrow> loop_state \<Rightarrow> world \<Rightarrow> loop_state \<times> world" where
  "repeat_loop e repeat body [] st w = (st, w)"
| "repeat_loop e repeat body (i # rest) st w =
     (case loop_step e repeat body i st w of
        (st', w') \<Rightarrow>
          if exited st' \<noteq> None then (st', w') else repeat_loop e repeat body rest st' w')"

text \<open>
  After the loop: in JSON mode every record is printed, then the command exits with 1
  when an attempt failed and the command repeats.
\<close>

definition repeat_finish :: "int \<Rightarrow> output_format \<Rightarrow> loop_state \<Rightarrow> cli_result" where
  "repeat_finish repeat fmt st =
     (case exited st of
        Some code \<Rightarrow> \<lparr>exit_code = code, stdout = []\<rparr>
      | None \<Rightarrow>
          \<lparr>exit_code = (if \<not> overall_success st \<and> repeat > 1 then 1 else 0),
           stdout = (if fmt = FormatJson then results_data st else [])\<rparr>)"

definition repeat_command ::
  "env \<Rightarrow> int \<Rightarrow> output_format \<Rightarrow> (nat \<Rightarrow> world \<Rightarrow> (json list \<times> exn option) \<times> world)
     \<Rightarrow> world \<Rightarrow> (cli_result \<times> loop_state) \<times> world" where
  "repeat_command e repeat fmt body w =
     (case repeat_loop e repeat body [0 ..< nat repeat] loop_init w of
        (st, w') \<Rightarrow> ((repeat_finish repeat fmt st, st), w'))"

definition upload_cmd ::
  "env \<Rightarrow> client \<Rightarrow> string \<Rightarrow> int \<Rightarrow> output_format \<Rightarrow> world
     \<Rightarrow> (cli_result \<times> loop_state) \<times> world" where
  "upload_cmd e c file_path repeat fmt w =
     repeat_command e repeat fmt (upload_try e c file_path fmt) w"

definition download_cmd ::
  "env \<Rightarrow> client \<Rightarrow> string \<Rightarrow> string \<Rightarrow> string option \<Rightarrow> int \<Rightarrow> output_format \<Rightarrow> world
     \<Rightarrow> (cli_result \<times> loop_state) \<times> world" where
  "download_cmd e c file_hash out_dir name repeat fmt w =
     repeat_command e repeat fmt (download_try e c file_hash out_dir name repeat) w"

subsection \<open>upload-bulk\<close>








section \<open>Notions for stating the properties\<close>

text \<open>
  The payloads of the wire contract are typed: the overall status of a health report and
  the status of an upload result are strings, the components of a health report are a
  map. A member may be missing; the code has a default for each.
\<close>

definition is_str :: "json \<Rightarrow> bool" where
  "is_str v = (case v of JStr _ \<Rightarrow> True | _ \<Rightarrow> False)"

definition is_obj :: "json \<Rightarrow> bool" where
  "is_obj v = (case v of JObj _ \<Rightarrow> True | _ \<Rightarrow> False)"

definition member_is :: "(json \<Rightarrow> bool) \<Rightarrow> (string \<times> json) list \<Rightarrow> string \<Rightarrow> bool" where
  "member_is P kvs key = (case map_of kvs key of None \<Rightarrow> True | Some v \<Rightarrow> P v)"

definition health_payload :: "(string \<times> json) list \<Rightarrow> bool" where
  "health_payload kvs = (member_is is_str kvs ''status'' \<and> member_is is_obj kvs ''components'')"

definition upload_payload :: "json \<Rightarrow> bool" where
  "upload_payload j = (case j of JObj kvs \<Rightarrow> member_is is_str kvs ''status'' | _ \<Rightarrow> True)"

text \<open>
  Running the \<^verbatim>\<open>try\<close> bodies of the attempts one after the other, whatever their
  outcomes: the outcomes in order and the world after the last one.
\<close>

fun attempts ::
  "(nat \<Rightarrow> world \<Rightarrow> 'a \<times> world) \<Rightarrow> nat list \<Rightarrow> world \<Rightarrow> 'a list \<times> world" where
  "attempts body [] w = ([], w)"
| "attempts body (i # rest) w =
     (case body i w of
        (out, w') \<Rightarrow> (case attempts body rest w' of (outs, w'') \<Rightarrow> (out # outs, w'')))"


text \<open>
  Reading a collected record: its \<^verbatim>\<open>success\<close> flag, and the source file a bulk record
  names (in the result of a success, at the top of a failure).
\<close>

definition record_success :: "json \<Rightarrow> bool" where
  "record_success rec = (dict_get rec ''success'' = Inr (JBool True))"


text \<open>An attempt failed when its \<^verbatim>\<open>try\<close> body raised.\<close>

definition failed :: "json list \<times> exn option \<Rightarrow> bool" where
  "failed out = (snd out \<noteq> None)"

text \<open>
  The records one attempt leaves in \<^verbatim>\<open>results_data\<close> when the command goes on after a
  failure: what the body appended, and the failure record of the handler. An outcome is
  clean when it is one success record and no exception, or an exception and no record.
\<close>

definition attempt_records :: "env \<Rightarrow> nat \<times> (json list \<times> exn option) \<Rightarrow> json list" where
  "attempt_records e io =
     (case io of
        (i, added, None) \<Rightarrow> added
      | (i, added, Some x) \<Rightarrow> added @ [failure_record (message_for e x) (duration_ms e i)])"

definition clean :: "json list \<times> exn option \<Rightarrow> bool" where
  "clean out =
     (case out of
        (added, None) \<Rightarrow> (\<exists>result. added = [success_record result])
      | (added, Some x) \<Rightarrow> added = [])"

text \<open>
  What a repeated command with more than one attempt comes to, against the attempts run
  one after the other: the world is the one after the last attempt, there is one record
  per attempt, whose flag tells whether the attempt failed, JSON mode prints the records,
  and the exit code is 1 when an attempt failed and 0 otherwise.
\<close>

definition batch_outcome ::
  "int \<Rightarrow> output_format \<Rightarrow> (nat \<Rightarrow> world \<Rightarrow> (json list \<times> exn option) \<times> world) \<Rightarrow> world
     \<Rightarrow> (cli_result \<times> loop_state) \<times> world \<Rightarrow> bool" where
  "batch_outcome n fmt body w run =
     (case attempts body [0 ..< nat n] w of
        (outs, w') \<Rightarrow>
          snd run = w' \<and> length outs = nat n
          \<and> length (results_data (snd (fst run))) = nat n
          \<and> map record_success (results_data (snd (fst run))) = map (\<lambda>out. \<not> failed out) outs
          \<and> stdout (fst (fst run))
              = (if fmt = FormatJson then results_data (snd (fst run)) else [])
          \<and> exit_code (fst (fst run)) = (if \<exists>out \<in> set outs. failed out then 1 else 0))"

text \<open>
  What a command with a single attempt comes to: a failure ends the process at once with
  exit code 1 and nothing printed, a success ends it with exit code 0; either way the
  world is the one after the attempt.
\<close>

definition single_outcome ::
  "(nat \<Rightarrow> world \<Rightarrow> (json list \<times> exn option) \<times> world) \<Rightarrow> world
     \<Rightarrow> (cli_result \<times> loop_state) \<times> world \<Rightarrow> bool" where
  "single_outcome body w run =
     (case body 0 w of
        (out, w') \<Rightarrow>
          snd run = w'
          \<and> exit_code (fst (fst run)) = (if failed out then 1 else 0)
          \<and> (failed out \<longrightarrow> stdout (fst (fst run)) = [] \<and> exited (snd (fst run)) = Some 1))"


section \<open>Concrete situations\<close>

text \<open>
  A world with no file and no request sent, a network that gives the same response to
  every request, and surroundings where the file system never refuses.
\<close>

definition empty_world :: world where
  "empty_world = \<lparr>sent = [], disk = Map.empty\<rparr>"

definition answer :: "int \<Rightarrow> string \<Rightarrow> json option \<Rightarrow> request list \<Rightarrow> request \<Rightarrow> transport_exn + response" where
  "answer st body decoded = (\<lambda>h q. Inr \<lparr>status_code = st, raw_text = body, json_result = decoded\<rparr>)"

definition quiet_env ::
  "(request list \<Rightarrow> request \<Rightarrow> transport_exn + response) \<Rightarrow> (string \<Rightarrow> string option) \<Rightarrow> env" where
  "quiet_env srv gt =
     \<lparr>server = srv, guess_type = gt, readable = (\<lambda>p. True), writable = (\<lambda>p. True),
      makedirs_ok = (\<lambda>p. True), duration_ms = (\<lambda>i. JInt 0), repr = (\<lambda>v. []),
      glob = (\<lambda>p. Inr [])\<rparr>"

definition local_client :: client where
  "local_client = PermastoreItClient ''http://localhost:5000'' 60"

text \<open>
  A network that fails the second request with status 500 and accepts every other one as
  a new upload.
\<close>

definition flaky :: "request list \<Rightarrow> request \<Rightarrow> transport_exn + response" where
  "flaky h q =
     (if length h = 1 then Inr \<lparr>status_code = 500, raw_text = [], json_result = None\<rparr>
      else Inr \<lparr>status_code = 201, raw_text = ''{\"status\":\"success\"}'',
                 json_result = Some (JObj [(''status'', JStr ''success'')])\<rparr>)"

section \<open>Facts about the string operations\<close>

lemma lstrip_replicate: "lstrip c (replicate m c @ s) = lstrip c s"
  by (induction m) (simp_all add: lstrip_def)

lemma lstrip_decompose: "replicate (length s - length (lstrip c s)) c @ lstrip c s = s"
  by (induction s) (simp_all add: lstrip_def Suc_diff_le length_dropWhile_le)

lemma lstrip_no_prefix: "\<not> prefix [c] (lstrip c s)"
  by (induction s) (simp_all add: lstrip_def)

lemma rstrip_replicate: "rstrip c (s @ replicate n c) = rstrip c s"
  using lstrip_replicate [of c n "rev s"] by (simp add: rstrip_def lstrip_def)

lemma rstrip_decompose: "rstrip c s @ replicate (length s - length (rstrip c s)) c = s"
proof -
  have "rev (replicate (length (rev s) - length (lstrip c (rev s))) c @ lstrip c (rev s)) = rev (rev s)"
    by (simp only: lstrip_decompose)
  then show ?thesis by (simp add: rstrip_def lstrip_def)
qed

lemma rstrip_no_suffix: "\<not> suffix [c] (rstrip c s)"
  using lstrip_no_prefix [of c "rev s"]
  by (simp add: rstrip_def lstrip_def suffix_to_prefix)

lemma split_nonempty: "split c s \<noteq> []"
  by (induction s) (auto split: list.splits)



lemma split_Cons_other:
  "x \<noteq> c \<Longrightarrow> split c (x # xs) = (x # hd (split c xs)) # tl (split c xs)"
  by (cases "split c xs") (simp_all add: split_nonempty)

lemma hd_tl_single: "xs \<noteq> [] \<Longrightarrow> (tl xs = [] \<and> P (hd xs)) \<longleftrightarrow> (\<exists>y. xs = [y] \<and> P y)"
  by (cases xs) auto

lemma split_single: "split c s = [p] \<longleftrightarrow> (s = p \<and> c \<notin> set p)"
proof (induction s arbitrary: p)
  case Nil
  then show ?case by auto
next
  case (Cons x xs)
  show ?case
  proof (cases "x = c")
    case True
    then show ?thesis by (auto simp: split_nonempty)
  next
    case False
    have "split c (x # xs) = [p] \<longleftrightarrow> (tl (split c xs) = [] \<and> p = x # hd (split c xs))"
      unfolding split_Cons_other [OF False] by auto
    also have "\<dots> \<longleftrightarrow> (\<exists>y. split c xs = [y] \<and> p = x # y)"
      by (rule hd_tl_single [OF split_nonempty])
    also have "\<dots> \<longleftrightarrow> (\<exists>y. (xs = y \<and> c \<notin> set y) \<and> p = x # y)"
      by (simp only: Cons.IH)
    also have "\<dots> \<longleftrightarrow> (x # xs = p \<and> c \<notin> set p)"
      using False by auto
    finally show ?thesis .
  qed
qed

lemma hd_tl_pair: "xs \<noteq> [] \<Longrightarrow> (tl xs = [q] \<and> P (hd xs)) \<longleftrightarrow> (\<exists>y. xs = [y, q] \<and> P y)"
  by (cases xs) auto

lemma split_two: "split c s = [p, q] \<longleftrightarrow> (s = p @ c # q \<and> c \<notin> set p \<and> c \<notin> set q)"
proof (induction s arbitrary: p)
  case Nil
  then show ?case by simp
next
  case (Cons x xs)
  show ?case
  proof (cases "x = c")
    case True
    have "split c (x # xs) = [p, q] \<longleftrightarrow> (p = [] \<and> split c xs = [q])"
      using True by auto
    also have "\<dots> \<longleftrightarrow> (p = [] \<and> xs = q \<and> c \<notin> set q)"
      by (simp only: split_single)
    also have "\<dots> \<longleftrightarrow> (x # xs = p @ c # q \<and> c \<notin> set p \<and> c \<notin> set q)"
      using True by (cases p) auto
    finally show ?thesis .
  next
    case False
    have "split c (x # xs) = [p, q] \<longleftrightarrow> (tl (split c xs) = [q] \<and> p = x # hd (split c xs))"
      unfolding split_Cons_other [OF False] by auto
    also have "\<dots> \<longleftrightarrow> (\<exists>y. split c xs = [y, q] \<and> p = x # y)"
      by (rule hd_tl_pair [OF split_nonempty])
    also have "\<dots> \<longleftrightarrow> (\<exists>y. (xs = y @ c # q \<and> c \<notin> set y \<and> c \<notin> set q) \<and> p = x # y)"
      by (simp only: Cons.IH)
    also have "\<dots> \<longleftrightarrow> (x # xs = p @ c # q \<and> c \<notin> set p \<and> c \<notin> set q)"
      using False by (cases p) auto
    finally show ?thesis .
  qed
qed

lemma split_length2:
  "(length (split c s) = 2 \<and> split c s ! 0 = p \<and> split c s ! 1 = q)
     \<longleftrightarrow> (s = p @ c # q \<and> c \<notin> set p \<and> c \<notin> set q)"
proof -
  have "(length (split c s) = 2 \<and> split c s ! 0 = p \<and> split c s ! 1 = q) \<longleftrightarrow> split c s = [p, q]"
    by (cases "split c s"; cases "tl (split c s)") (auto simp: numeral_2_eq_2)
  then show ?thesis by (simp only: split_two)
qed


section \<open>What a request leaves behind\<close>

lemma make_request_world:
  "snd (make_request e c meth ep kw w) = w\<lparr>sent := sent w @ [build_request c meth ep kw]\<rparr>"
  by (simp add: make_request_def Let_def split: sum.splits transport_exn.splits)

lemma request_json_world:
  "snd (request_json e c meth ep kw w) = w\<lparr>sent := sent w @ [build_request c meth ep kw]\<rparr>"
  using make_request_world [of e c meth ep kw w]
  by (auto simp: request_json_def split: prod.splits sum.splits)

lemma raise_for_response_not_ValueError: "raise_for_response ep r \<noteq> ValueError m"
  by (auto simp: raise_for_response_def error_detail_def dict_get_def APIError_init_def Let_def
      split: sum.splits option.splits json.splits if_splits)

lemma make_request_not_ValueError: "fst (make_request e c meth ep kw w) \<noteq> Inl (ValueError m)"
  by (auto simp: make_request_def Let_def raise_for_response_not_ValueError
      split: sum.splits transport_exn.splits)

lemma request_json_not_ValueError: "fst (request_json e c meth ep kw w) \<noteq> Inl (ValueError m)"
  using make_request_not_ValueError [of e c meth ep kw w m]
  by (auto simp: request_json_def response_json_def split: prod.splits sum.splits option.splits)

section \<open>The URL of a request\<close>

text \<open>
  Claim C10. The URL of the request that \<^verbatim>\<open>_make_request\<close> sends for a client built from
  base URL \<open>b\<close> and for endpoint \<open>ep\<close> is \<open>b\<close> without its trailing slashes, one
  slash, and \<open>ep\<close> without its leading slashes: what \<open>rstrip\<close> removes from \<open>b\<close> is
  a run of slashes at its end and what is left does not end in a slash, likewise for
  \<open>lstrip\<close> at the front of \<open>ep\<close>. So adding slashes at the end of the base URL or in
  front of the endpoint does not change the URL.
\<close>

theorem request_url_normalised:
  "map url (sent (snd (make_request e (PermastoreItClient b t) meth ep kw w)))
     = map url (sent w) @ [rstrip CHR ''/'' b @ ''/'' @ lstrip CHR ''/'' ep]
   \<and> rstrip CHR ''/'' b @ replicate (length b - length (rstrip CHR ''/'' b)) CHR ''/'' = b
   \<and> \<not> suffix ''/'' (rstrip CHR ''/'' b)
   \<and> replicate (length ep - length (lstrip CHR ''/'' ep)) CHR ''/'' @ lstrip CHR ''/'' ep = ep
   \<and> \<not> prefix ''/'' (lstrip CHR ''/'' ep)
   \<and> request_url (PermastoreItClient (b @ replicate n CHR ''/'') t) (replicate m CHR ''/'' @ ep)
       = request_url (PermastoreItClient b t') ep"
proof -
  have "map url (sent (snd (make_request e (PermastoreItClient b t) meth ep kw w)))
     = map url (sent w) @ [rstrip CHR ''/'' b @ ''/'' @ lstrip CHR ''/'' ep]"
    by (simp add: make_request_world build_request_def request_url_def PermastoreItClient_def)
  moreover have "request_url (PermastoreItClient (b @ replicate n CHR ''/'') t) (replicate m CHR ''/'' @ ep)
       = request_url (PermastoreItClient b t') ep"
    by (simp add: request_url_def PermastoreItClient_def rstrip_replicate lstrip_replicate)
  ultimately show ?thesis
    using rstrip_decompose [of "CHR ''/''" b] rstrip_no_suffix [of "CHR ''/''" b]
      lstrip_decompose [of ep "CHR ''/''"] lstrip_no_prefix [of "CHR ''/''" ep]
    by simp
qed

theorem request_url_normalised_witness:
  "request_url (PermastoreItClient ''http://node:5000//'' 60) ''//status''
     = ''http://node:5000/status''
   \<and> request_url (PermastoreItClient ''http://node:5000'' 30) ''status''
     = ''http://node:5000/status''"
proof -
  have "request_url (PermastoreItClient (''http://node:5000'' @ replicate 2 CHR ''/'') 60)
          (replicate 2 CHR ''/'' @ ''status'')
        = request_url (PermastoreItClient ''http://node:5000'' 30) ''status''"
    using request_url_normalised [of _ "''http://node:5000''" 60 _ "''status''" _ _ 2 2 30]
    by blast
  moreover have "request_url (PermastoreItClient ''http://node:5000'' 30) ''status''
        = ''http://node:5000/status''"
    by (simp add: request_url_def PermastoreItClient_def rstrip_def lstrip_def)
  ultimately show ?thesis
    by (simp add: numeral_2_eq_2)
qed

section \<open>Validation of the limit\<close>

text \<open>
  Claim C9. With a limit below 1, \<^verbatim>\<open>list_files\<close> and \<^verbatim>\<open>search\<close> fail with the
  \<open>ValueError\<close> of the limit check and leave the world as it was: no request is sent.
  With a limit of at least 1, and for \<^verbatim>\<open>list_files\<close> without a limit, the result is no
  \<open>ValueError\<close>, and exactly one request is sent, carrying the limit.
\<close>

theorem limit_validation:
  "(if l < 1
    then list_files e c (Some l) w = (Inl (ValueError ''Limit must be a positive integer.''), w)
       \<and> search e c q l w = (Inl (ValueError ''Limit must be a positive integer.''), w)
    else (\<forall>m. fst (list_files e c (Some l) w) \<noteq> Inl (ValueError m))
       \<and> (\<forall>m. fst (search e c q l w) \<noteq> Inl (ValueError m))
       \<and> sent (snd (list_files e c (Some l) w))
           = sent w @ [\<lparr>http_method = ''GET'', url = request_url c ''/files'', req_timeout = timeout c,
                          params = [(''limit'', JInt l)], files = [], stream = False\<rparr>]
       \<and> sent (snd (search e c q l w))
           = sent w @ [\<lparr>http_method = ''GET'', url = request_url c ''/search'', req_timeout = timeout c,
                          params = [(''query'', JStr q), (''limit'', JInt l)], files = [],
                          stream = False\<rparr>])
   \<and> (\<forall>m. fst (list_files e c None w) \<noteq> Inl (ValueError m))
   \<and> sent (snd (list_files e c None w))
       = sent w @ [\<lparr>http_method = ''GET'', url = request_url c ''/files'', req_timeout = timeout c,
                      params = [], files = [], stream = False\<rparr>]"
  by (simp add: list_files_def search_def request_json_not_ValueError request_json_world
      build_request_def no_kwargs_def)

theorem limit_validation_witness:
  "list_files (quiet_env (answer 200 ''[]'' (Some (JArr []))) (\<lambda>p. None)) local_client (Some 0)
       empty_world
     = (Inl (ValueError ''Limit must be a positive integer.''), empty_world)
   \<and> search (quiet_env (answer 200 ''[]'' (Some (JArr []))) (\<lambda>p. None)) local_client ''cat'' (- 1)
       empty_world
     = (Inl (ValueError ''Limit must be a positive integer.''), empty_world)
   \<and> map params (sent (snd (search (quiet_env (answer 200 ''[]'' (Some (JArr []))) (\<lambda>p. None))
        local_client ''cat'' 5 empty_world)))
     = [[(''query'', JStr ''cat''), (''limit'', JInt 5)]]"
  using
    limit_validation [of 0 "quiet_env (answer 200 ''[]'' (Some (JArr []))) (\<lambda>p. None)"
      local_client empty_world "''cat''"]
    limit_validation [of "- 1" "quiet_env (answer 200 ''[]'' (Some (JArr []))) (\<lambda>p. None)"
      local_client empty_world "''cat''"]
    limit_validation [of 5 "quiet_env (answer 200 ''[]'' (Some (JArr []))) (\<lambda>p. None)"
      local_client empty_world "''cat''"]
  by (simp add: empty_world_def)


section \<open>How a response that is not ok is raised\<close>

lemma make_request_error:
  "server e (sent w) (build_request c meth ep kw) = Inr r \<Longrightarrow> \<not> ok r \<Longrightarrow>
     fst (make_request e c meth ep kw w) = Inl (raise_for_response ep r)"
  by (simp add: make_request_def Let_def)

lemma make_request_ok:
  "server e (sent w) (build_request c meth ep kw) = Inr r \<Longrightarrow> ok r \<Longrightarrow>
     fst (make_request e c meth ep kw w) = Inr r"
  by (simp add: make_request_def Let_def)

lemma request_json_error:
  "server e (sent w) (build_request c meth ep kw) = Inr r \<Longrightarrow> \<not> ok r \<Longrightarrow>
     fst (request_json e c meth ep kw w) = Inl (raise_for_response ep r)"
  using make_request_error [of e w c meth ep kw r]
  by (auto simp: request_json_def split: prod.splits sum.splits)

lemma request_json_ok:
  "server e (sent w) (build_request c meth ep kw) = Inr r \<Longrightarrow> ok r \<Longrightarrow>
     fst (request_json e c meth ep kw w) = response_json r"
  using make_request_ok [of e w c meth ep kw r]
  by (auto simp: request_json_def split: prod.splits sum.splits)

lemma not_ok_404: "status_code r = 404 \<Longrightarrow> \<not> ok r"
  by (simp add: ok_def)

lemma not_ok_501: "status_code r = 501 \<Longrightarrow> \<not> ok r"
  by (simp add: ok_def)

lemma raise_for_response_not_IOError: "\<not> is_IOError (raise_for_response ep r)"
  by (auto simp: raise_for_response_def error_detail_def dict_get_def APIError_init_def Let_def
      split: sum.splits option.splits json.splits if_splits)

text \<open>
  For a 404 whose detail could be read, the exception follows the shape of the endpoint:
  one of the three resource prefixes, a slash and one segment without a slash give
  \<open>FileNotFoundErrorOnServer\<close> with the segment; every other endpoint gives the
  generic \<open>APIError\<close>.
\<close>

lemma not_found_classification:
  assumes "status_code r = 404" and "error_detail r = Inr dt"
  shows "(lstrip CHR ''/'' ep = p @ ''/'' @ seg
            \<and> p \<in> {''download'', ''file-info'', ''zk-proof''} \<and> CHR ''/'' \<notin> set seg
          \<longrightarrow> raise_for_response ep r = FileNotFoundErrorOnServer seg)
       \<and> ((\<nexists>p seg. lstrip CHR ''/'' ep = p @ ''/'' @ seg
            \<and> p \<in> {''download'', ''file-info'', ''zk-proof''} \<and> CHR ''/'' \<notin> set seg)
          \<longrightarrow> raise_for_response ep r
                = APIError_init 404 (py_or dt (JStr ''Resource not found'')) (raw_text r))"
proof (intro conjI impI)
  let ?parts = "split CHR ''/'' (lstrip CHR ''/'' ep)"
  assume a: "lstrip CHR ''/'' ep = p @ ''/'' @ seg
      \<and> p \<in> {''download'', ''file-info'', ''zk-proof''} \<and> CHR ''/'' \<notin> set seg"
  then have "lstrip CHR ''/'' ep = p @ CHR ''/'' # seg \<and> CHR ''/'' \<notin> set p \<and> CHR ''/'' \<notin> set seg"
    by auto
  then have "length ?parts = 2 \<and> ?parts ! 0 = p \<and> ?parts ! 1 = seg"
    using split_length2 [of "CHR ''/''" "lstrip CHR ''/'' ep" p seg] by blast
  then show "raise_for_response ep r = FileNotFoundErrorOnServer seg"
    using assms a by (simp add: raise_for_response_def Let_def)
next
  let ?parts = "split CHR ''/'' (lstrip CHR ''/'' ep)"
  assume n: "\<nexists>p seg. lstrip CHR ''/'' ep = p @ ''/'' @ seg
      \<and> p \<in> {''download'', ''file-info'', ''zk-proof''} \<and> CHR ''/'' \<notin> set seg"
  have "\<not> (length ?parts = 2 \<and> ?parts ! 0 \<in> set [''download'', ''file-info'', ''zk-proof''])"
  proof
    assume c: "length ?parts = 2 \<and> ?parts ! 0 \<in> set [''download'', ''file-info'', ''zk-proof'']"
    then have "length ?parts = 2 \<and> ?parts ! 0 = ?parts ! 0 \<and> ?parts ! 1 = ?parts ! 1"
      by simp
    then have "lstrip CHR ''/'' ep = (?parts ! 0) @ CHR ''/'' # (?parts ! 1)
        \<and> CHR ''/'' \<notin> set (?parts ! 0) \<and> CHR ''/'' \<notin> set (?parts ! 1)"
      using split_length2 [of "CHR ''/''" "lstrip CHR ''/'' ep" "?parts ! 0" "?parts ! 1"] by blast
    with c n show False by auto
  qed
  then show "raise_for_response ep r
      = APIError_init 404 (py_or dt (JStr ''Resource not found'')) (raw_text r)"
    using assms by (auto simp: raise_for_response_def Let_def)
qed

text \<open>
  Claim C4. The detail of a failed response is read before its status is looked at, with
  \<^verbatim>\<open>data.get("detail")\<close> on whatever the body decodes to. A 404 whose body is valid JSON
  but not an object (an array, a string, a number, \<^verbatim>\<open>null\<close>) therefore leaves
  \<^verbatim>\<open>_make_request\<close> as an \<open>AttributeError\<close>, for every endpoint: neither
  \<open>FileNotFoundErrorOnServer\<close> nor \<open>APIError\<close>.
\<close>

theorem not_found_unstructured_body:
  assumes "server e (sent w) (build_request c meth ep kw) = Inr r"
    and "status_code r = 404"
    and "json_result r = Some j"
    and "\<not> is_obj j"
  shows "fst (make_request e c meth ep kw w) = Inl (AttributeError ''get'')"
proof -
  have "error_detail r = Inl (AttributeError ''get'')"
    using assms(3,4) by (cases j) (simp_all add: error_detail_def dict_get_def is_obj_def)
  then have "raise_for_response ep r = AttributeError ''get''"
    by (simp add: raise_for_response_def)
  then show ?thesis using assms(1,2) by (simp add: make_request_error not_ok_404)
qed

theorem not_found_unstructured_body_witness:
  "fst (make_request (quiet_env (answer 404 ''[]'' (Some (JArr []))) (\<lambda>p. None)) local_client
          ''GET'' ''/file-info/abc'' no_kwargs empty_world)
     = Inl (AttributeError ''get'')"
proof -
  let ?e = "quiet_env (answer 404 ''[]'' (Some (JArr []))) (\<lambda>p. None)"
  let ?r = "\<lparr>status_code = 404, raw_text = ''[]'', json_result = Some (JArr [])\<rparr>"
  have 1: "server ?e (sent empty_world)
             (build_request local_client ''GET'' ''/file-info/abc'' no_kwargs) = Inr ?r"
    by (simp add: quiet_env_def answer_def)
  have 2: "status_code ?r = 404" by simp
  have 3: "json_result ?r = Some (JArr [])" by simp
  have 4: "\<not> is_obj (JArr [])" by (simp add: is_obj_def)
  show ?thesis by (rule not_found_unstructured_body [OF 1 2 3 4])
qed

section \<open>Download of an unknown hash\<close>

lemma download_never_not_found: "fst (download e c h d n w) \<noteq> Inl (FileNotFoundErrorOnServer rid)"
  by (auto simp: download_def download_except_def Let_def split: prod.splits sum.splits)

lemma raise_for_response_download:
  "status_code r = 404 \<Longrightarrow> error_detail r = Inr dt \<Longrightarrow> CHR ''/'' \<notin> set h \<Longrightarrow>
     raise_for_response (''/download/'' @ h) r = FileNotFoundErrorOnServer h"
proof -
  assume a: "status_code r = 404" "error_detail r = Inr dt" "CHR ''/'' \<notin> set h"
  have "split CHR ''/'' h = [h]"
    using a(3) by (simp add: split_single)
  then show ?thesis using a(1,2)
    by (simp add: raise_for_response_def lstrip_def Let_def)
qed

text \<open>
  Claim C1. When the directory is there and the server answers the request for
  \<^verbatim>\<open>/download/{hash}\<close> with 404, \<^verbatim>\<open>_make_request\<close> raises inside the \<^verbatim>\<open>try\<close> of
  \<^verbatim>\<open>download\<close>, whose \<^verbatim>\<open>except Exception\<close> clause catches it and raises the base class
  \<open>PermastoreItError\<close> in its place. The caller gets the base class with the
  exception of \<^verbatim>\<open>_make_request\<close> as its cause, never \<open>FileNotFoundErrorOnServer\<close>.
\<close>

theorem download_not_found_rewrapped:
  assumes "makedirs_ok e d"
    and "server e (sent w)
           (build_request c ''GET'' (''/download/'' @ h) (no_kwargs\<lparr>kw_stream := True\<rparr>)) = Inr r"
    and "status_code r = 404"
  shows "fst (download e c h d n w)
           = Inl (PermastoreItError ''Unexpected error during download/save: ''
                    (raise_for_response (''/download/'' @ h) r))
         \<and> fst (download e c h d n w) \<noteq> Inl (FileNotFoundErrorOnServer h)"
proof -
  let ?kw = "no_kwargs\<lparr>kw_stream := True\<rparr>"
  have "fst (make_request e c ''GET'' (''/download/'' @ h) ?kw w)
          = Inl (raise_for_response (''/download/'' @ h) r)"
    using assms(2,3) by (simp add: make_request_error not_ok_404)
  then show ?thesis
    using assms(1)
    by (auto simp: download_def download_except_def raise_for_response_not_IOError Let_def
        split: prod.splits sum.splits)
qed

theorem download_not_found_rewrapped_witness:
  "fst (download
          (quiet_env (answer 404 ''{\"detail\":\"File not found\"}''
             (Some (JObj [(''detail'', JStr ''File not found'')]))) (\<lambda>p. None))
          local_client ''abc'' ''out'' None empty_world)
     = Inl (PermastoreItError ''Unexpected error during download/save: ''
              (FileNotFoundErrorOnServer ''abc''))"
proof -
  let ?j = "JObj [(''detail'', JStr ''File not found'')]"
  let ?e = "quiet_env (answer 404 ''{\"detail\":\"File not found\"}'' (Some ?j)) (\<lambda>p. None)"
  let ?r = "\<lparr>status_code = 404, raw_text = ''{\"detail\":\"File not found\"}'',
             json_result = Some ?j\<rparr>"
  have 1: "makedirs_ok ?e ''out''" by (simp add: quiet_env_def)
  have 2: "server ?e (sent empty_world)
             (build_request local_client ''GET'' (''/download/'' @ ''abc'')
                (no_kwargs\<lparr>kw_stream := True\<rparr>)) = Inr ?r"
    by (simp add: quiet_env_def answer_def)
  have 3: "status_code ?r = 404" by simp
  have 4: "raise_for_response (''/download/'' @ ''abc'') ?r = FileNotFoundErrorOnServer ''abc''"
    by (rule raise_for_response_download [where dt = "JStr ''File not found''"])
      (simp_all add: error_detail_def dict_get_def)
  from download_not_found_rewrapped [OF 1 2 3, of None] 4 show ?thesis by simp
qed

section \<open>A proof request answered 501\<close>

text \<open>
  Claim C2. \<^verbatim>\<open>_make_request\<close> recognises a ZKP endpoint by the substring \<^verbatim>\<open>zkp\<close> of
  the lower-cased endpoint, and the endpoint of \<^verbatim>\<open>get_zk_proof\<close> is
  \<^verbatim>\<open>/zk-proof/{hash}\<close>, which has a hyphen between \<^verbatim>\<open>zk\<close> and \<^verbatim>\<open>p\<close>. Unless the hash
  itself contains \<^verbatim>\<open>zkp\<close> (a hexadecimal hash never does), a 501 answer to
  \<^verbatim>\<open>get_zk_proof\<close> is raised as the generic \<open>APIError\<close> (or as the
  \<open>AttributeError\<close> of the detail), never as \<open>ZKPDisabledError\<close>.
\<close>

theorem zk_proof_501_generic:
  assumes "server e (sent w) (build_request c ''GET'' (''/zk-proof/'' @ h) no_kwargs) = Inr r"
    and "status_code r = 501"
    and "\<not> contains ''zkp'' (lower h)"
  shows "fst (get_zk_proof e c h w)
           = Inl (case error_detail r of
                    Inl x \<Rightarrow> x
                  | Inr dt \<Rightarrow> APIError_init 501 dt (raw_text r))
         \<and> fst (get_zk_proof e c h w) \<noteq> Inl ZKPDisabledError"
proof -
  have "raise_for_response (''/zk-proof/'' @ h) r
          = (case error_detail r of Inl x \<Rightarrow> x | Inr dt \<Rightarrow> APIError_init 501 dt (raw_text r))"
    using assms(2,3)
    by (simp add: raise_for_response_def lower_def lower_char_def split: sum.splits)
  moreover have "\<dots> \<noteq> ZKPDisabledError"
    by (auto simp: error_detail_def dict_get_def APIError_init_def
        split: sum.splits option.splits json.splits)
  ultimately show ?thesis
    using assms(1,2) by (simp add: get_zk_proof_def request_json_error not_ok_501)
qed

theorem zk_proof_501_generic_witness:
  "fst (get_zk_proof
          (quiet_env (answer 501 ''{\"detail\":\"ZKP is disabled\"}''
             (Some (JObj [(''detail'', JStr ''ZKP is disabled'')]))) (\<lambda>p. None))
          local_client ''abc'' empty_world)
     = Inl (APIError 501 (JStr ''ZKP is disabled'') ''{\"detail\":\"ZKP is disabled\"}'')"
proof -
  let ?j = "JObj [(''detail'', JStr ''ZKP is disabled'')]"
  let ?e = "quiet_env (answer 501 ''{\"detail\":\"ZKP is disabled\"}'' (Some ?j)) (\<lambda>p. None)"
  let ?r = "\<lparr>status_code = 501, raw_text = ''{\"detail\":\"ZKP is disabled\"}'',
             json_result = Some ?j\<rparr>"
  have 1: "server ?e (sent empty_world)
             (build_request local_client ''GET'' (''/zk-proof/'' @ ''abc'') no_kwargs) = Inr ?r"
    by (simp add: quiet_env_def answer_def)
  have 2: "status_code ?r = 501" by simp
  have 3: "\<not> contains ''zkp'' (lower ''abc'')" by (simp add: lower_def lower_char_def)
  from zk_proof_501_generic [OF 1 2 3] show ?thesis
    by (simp add: error_detail_def dict_get_def APIError_init_def py_or_def)
qed

section \<open>Upload\<close>

text \<open>
  Claim C3. For an existing regular file whose MIME type \<^verbatim>\<open>mimetypes.guess_type\<close> does
  not resolve, \<^verbatim>\<open>upload\<close> sets the content type to \<^verbatim>\<open>application/octet-stream\<close> and
  then evaluates \<^verbatim>\<open>sys.stderr\<close> for the warning, in a module that never imports
  \<^verbatim>\<open>sys\<close>: the call raises \<open>NameError\<close>, no warning is printed, and the world is as
  before, so no request is sent.
\<close>

theorem upload_unresolved_type:
  assumes "isfile w p" and "guess_type e p = None"
  shows "upload e c p w = (Inl (NameError ''sys''), w)"
  using assms by (simp add: upload_def print_warning_def Let_def)

theorem upload_unresolved_type_witness:
  "upload (quiet_env (answer 201 ''{}'' (Some (JObj []))) (\<lambda>p. None)) local_client ''notes.xyz''
       (empty_world\<lparr>disk := [''notes.xyz'' \<mapsto> ''hello'']\<rparr>)
     = (Inl (NameError ''sys''), empty_world\<lparr>disk := [''notes.xyz'' \<mapsto> ''hello'']\<rparr>)"
proof -
  let ?e = "quiet_env (answer 201 ''{}'' (Some (JObj []))) (\<lambda>p. None)"
  let ?w = "empty_world\<lparr>disk := [''notes.xyz'' \<mapsto> ''hello'']\<rparr>"
  have 1: "isfile ?w ''notes.xyz''" by (simp add: isfile_def)
  have 2: "guess_type ?e ''notes.xyz'' = None" by (simp add: quiet_env_def)
  show ?thesis by (rule upload_unresolved_type [OF 1 2])
qed

lemma upload_world:
  "sent (snd (upload e c p w)) =
     (if isfile w p \<and> guess_type e p \<noteq> None \<and> readable e p
      then sent w @ [build_request c ''POST'' ''/upload''
             (no_kwargs\<lparr>kw_files := [(''file'', basename p, the (disk w p), the (guess_type e p))],
                         kw_timeout := Some (max (timeout c * 2) 120)\<rparr>)]
      else sent w)"
proof (cases "isfile w p \<and> guess_type e p \<noteq> None \<and> readable e p")
  case True
  then obtain ct f where g: "guess_type e p = Some ct" and d: "disk w p = Some f"
    by (auto simp: isfile_def)
  let ?kw = "no_kwargs\<lparr>kw_files := [(''file'', basename p, f, ct)],
                         kw_timeout := Some (max (timeout c * 2) 120)\<rparr>"
  have "snd (upload e c p w) = snd (request_json e c ''POST'' ''/upload'' ?kw w)"
    using True g d by (simp add: upload_def open_rb_def Let_def split: prod.splits sum.splits)
  then show ?thesis using True g d by (simp add: request_json_world)
next
  case False
  then show ?thesis
    by (auto simp: upload_def open_rb_def print_warning_def isfile_def Let_def
        split: option.splits)
qed

text \<open>
  Claim C8. Whatever \<^verbatim>\<open>upload\<close> sends, it sends at most one request, a POST to
  \<^verbatim>\<open>/upload\<close> whose timeout is the larger of twice the client's default timeout and
  120, hence at least twice the default and at least 120. It sends the request exactly
  when the path is a regular file that can be read and whose MIME type is resolved.
\<close>

theorem upload_timeout:
  "\<exists>rs. sent (snd (upload e c p w)) = sent w @ rs
     \<and> length rs = (if isfile w p \<and> guess_type e p \<noteq> None \<and> readable e p then 1 else 0)
     \<and> list_all (\<lambda>r. req_timeout r = max (2 * timeout c) 120
                     \<and> 2 * timeout c \<le> req_timeout r \<and> 120 \<le> req_timeout r
                     \<and> http_method r = ''POST'' \<and> url r = request_url c ''/upload'') rs"
  by (simp add: upload_world build_request_def no_kwargs_def mult.commute)

theorem upload_timeout_witness:
  "\<exists>rs. sent (snd (upload (quiet_env (answer 201 ''{}'' (Some (JObj []))) (\<lambda>p. Some ''text/plain''))
                  (PermastoreItClient ''http://localhost:5000'' 90) ''notes.txt''
                  (empty_world\<lparr>disk := [''notes.txt'' \<mapsto> ''hello'']\<rparr>))) = rs
     \<and> length rs = 1 \<and> list_all (\<lambda>r. req_timeout r = 180) rs"
  using upload_timeout [of "quiet_env (answer 201 ''{}'' (Some (JObj []))) (\<lambda>p. Some ''text/plain'')"
      "PermastoreItClient ''http://localhost:5000'' 90" "''notes.txt''"
      "empty_world\<lparr>disk := [''notes.txt'' \<mapsto> ''hello'']\<rparr>"]
  by (auto simp: isfile_def quiet_env_def empty_world_def PermastoreItClient_def list_all_iff)

section \<open>The health command\<close>

lemma ok_200: "status_code r = 200 \<Longrightarrow> ok r"
  by (simp add: ok_def)

lemma health_text_payload:
  "health_payload kvs \<Longrightarrow> health_text (JObj (AList.update ''query_time_ms'' t kvs)) = Inr ()"
  by (auto simp: health_text_def health_payload_def member_is_def dict_get_default_def
      py_upper_def py_items_def is_str_def is_obj_def update_conv'
      split: option.splits json.splits)

lemma health_try_payload:
  assumes "fst (get_health e c w) = Inr (JObj kvs)"
    and "fmt = FormatJson \<or> health_payload kvs"
  shows "\<exists>out. fst (health_try e c fmt w)
           = Inr \<lparr>exit_code = (if map_of kvs ''status'' = Some (JStr ''healthy'') then 0 else 2),
                  stdout = out\<rparr>"
proof -
  obtain w' where g: "get_health e c w = (Inr (JObj kvs), w')"
    using assms(1) by (cases "get_health e c w") auto
  have t: "(if fmt = FormatJson then Inr ()
            else health_text (JObj (AList.update ''query_time_ms'' (duration_ms e 0) kvs))) = Inr ()"
    using assms(2) by (auto simp: health_text_payload)
  show ?thesis
    by (auto simp add: health_try_def g dict_set_def t dict_get_def update_conv'
        split: option.splits)
qed

lemma health_failure:
  assumes "fst (get_health e c w) = Inl x"
  shows "exit_code (fst (health e c fmt w)) = 1"
proof -
  obtain w' where g: "get_health e c w = (Inl x, w')"
    using assms by (cases "get_health e c w") auto
  show ?thesis by (simp add: health_def health_try_def g handle_sdk_error_def)
qed

text \<open>
  Where the exit code 2 is reached: the server answers \<^verbatim>\<open>/health\<close> with status 200 and
  an object whose status is not \<^verbatim>\<open>"healthy"\<close>, and either the output format is JSON,
  which reads no more than the status, or the object is typed as the wire contract has it
  (the status a string, the components a map). Then \<^verbatim>\<open>get_health\<close> returns the payload
  and the command exits with code 2. When \<^verbatim>\<open>get_health\<close> itself fails, the command exits
  with code 1.
\<close>

theorem health_degraded:
  "(server e (sent w) (build_request c ''GET'' ''/health'' no_kwargs) = Inr r
      \<and> status_code r = 200 \<and> json_result r = Some (JObj kvs)
      \<and> map_of kvs ''status'' \<noteq> Some (JStr ''healthy'')
      \<and> (fmt = FormatJson \<or> health_payload kvs)
    \<longrightarrow> fst (get_health e c w) = Inr (JObj kvs) \<and> exit_code (fst (health e c fmt w)) = 2)
   \<and> (fst (get_health e c w) = Inl x \<longrightarrow> exit_code (fst (health e c fmt w)) = 1)"
proof (intro conjI impI)
  assume a: "server e (sent w) (build_request c ''GET'' ''/health'' no_kwargs) = Inr r
      \<and> status_code r = 200 \<and> json_result r = Some (JObj kvs)
      \<and> map_of kvs ''status'' \<noteq> Some (JStr ''healthy'')
      \<and> (fmt = FormatJson \<or> health_payload kvs)"
  then show g: "fst (get_health e c w) = Inr (JObj kvs)"
    by (simp add: get_health_def request_json_ok ok_200 response_json_def)
  from health_try_payload [OF g, of fmt] a obtain out
    where "fst (health_try e c fmt w) = Inr \<lparr>exit_code = 2, stdout = out\<rparr>"
    by auto
  then show "exit_code (fst (health e c fmt w)) = 2"
    by (cases "health_try e c fmt w") (simp add: health_def)
next
  assume "fst (get_health e c w) = Inl x"
  then show "exit_code (fst (health e c fmt w)) = 1" by (rule health_failure)
qed

theorem health_degraded_witness:
  "fst (get_health
          (quiet_env (answer 200 ''{\"status\":\"degraded\",\"components\":{\"dht\":false}}''
             (Some (JObj [(''status'', JStr ''degraded''),
                          (''components'', JObj [(''dht'', JBool False)])]))) (\<lambda>p. None))
          local_client empty_world)
     = Inr (JObj [(''status'', JStr ''degraded''), (''components'', JObj [(''dht'', JBool False)])])
   \<and> exit_code (fst (health
          (quiet_env (answer 200 ''{\"status\":\"degraded\",\"components\":{\"dht\":false}}''
             (Some (JObj [(''status'', JStr ''degraded''),
                          (''components'', JObj [(''dht'', JBool False)])]))) (\<lambda>p. None))
          local_client FormatText empty_world)) = 2
   \<and> exit_code (fst (health (quiet_env (\<lambda>h q. Inl (ConnectionError ''refused'')) (\<lambda>p. None))
          local_client FormatText empty_world)) = 1"
proof -
  let ?kvs = "[(''status'', JStr ''degraded''), (''components'', JObj [(''dht'', JBool False)])]"
  let ?body = "''{\"status\":\"degraded\",\"components\":{\"dht\":false}}''"
  let ?e = "quiet_env (answer 200 ?body (Some (JObj ?kvs))) (\<lambda>p. None)"
  let ?r = "\<lparr>status_code = 200, raw_text = ?body, json_result = Some (JObj ?kvs)\<rparr>"
  let ?d = "quiet_env (\<lambda>h q. Inl (ConnectionError ''refused'')) (\<lambda>p. None)"
  have a: "server ?e (sent empty_world) (build_request local_client ''GET'' ''/health'' no_kwargs) = Inr ?r
      \<and> status_code ?r = 200 \<and> json_result ?r = Some (JObj ?kvs)
      \<and> map_of ?kvs ''status'' \<noteq> Some (JStr ''healthy'')
      \<and> (FormatText = FormatJson \<or> health_payload ?kvs)"
    by (simp add: quiet_env_def answer_def health_payload_def member_is_def is_str_def is_obj_def)
  have b: "fst (get_health ?d local_client empty_world)
      = Inl (NetworkError (''Connection error connecting to ''
               @ request_url local_client ''/health'' @ '': '' @ ''refused''))"
    by (simp add: get_health_def request_json_def make_request_def build_request_def
        quiet_env_def Let_def)
  from health_degraded [of ?e empty_world local_client ?r ?kvs FormatText] a
  have 1: "fst (get_health ?e local_client empty_world) = Inr (JObj ?kvs)
      \<and> exit_code (fst (health ?e local_client FormatText empty_world)) = 2"
    by blast
  from health_degraded [of ?d empty_world local_client _ _ FormatText] b
  have 2: "exit_code (fst (health ?d local_client FormatText empty_world)) = 1"
    by blast
  from 1 2 show ?thesis by simp
qed

lemma health_text_ill_typed:
  assumes "\<not> health_payload kvs"
  shows "\<exists>x. health_text (JObj (AList.update ''query_time_ms'' t kvs)) = Inl x"
  using assms
  by (auto simp: health_text_def health_payload_def member_is_def dict_get_default_def
      py_upper_def py_items_def is_str_def is_obj_def update_conv'
      split: option.splits json.splits)

text \<open>
  Claim C6. \<^verbatim>\<open>get_health\<close> returns every 200 answer that is an object, whatever its
  status. The \<^verbatim>\<open>health\<close> command, in its default text format, then renders the report
  inside its \<^verbatim>\<open>try\<close>: it calls \<^verbatim>\<open>.upper()\<close> on the status and \<^verbatim>\<open>.items()\<close> on the
  components before it sets the exit code. For a report whose status is not
  \<^verbatim>\<open>"healthy"\<close> and whose status is not a string or whose components are not a map,
  the rendering raises, the handler takes over, and the command exits with code 1, the
  code of a failed call, where the JSON format exits with code 2.
\<close>

theorem health_degraded_text_exit:
  assumes "server e (sent w) (build_request c ''GET'' ''/health'' no_kwargs) = Inr r"
    and "status_code r = 200"
    and "json_result r = Some (JObj kvs)"
    and "map_of kvs ''status'' \<noteq> Some (JStr ''healthy'')"
    and "\<not> health_payload kvs"
  shows "fst (get_health e c w) = Inr (JObj kvs)
       \<and> exit_code (fst (health e c FormatText w)) = 1
       \<and> exit_code (fst (health e c FormatJson w)) = 2"
proof -
  have g: "fst (get_health e c w) = Inr (JObj kvs)"
    using assms(1,2,3) by (simp add: get_health_def request_json_ok ok_200 response_json_def)
  then obtain w' where gw: "get_health e c w = (Inr (JObj kvs), w')"
    by (cases "get_health e c w") auto
  from health_text_ill_typed [OF assms(5), of "duration_ms e 0"] obtain x
    where x: "health_text (JObj (AList.update ''query_time_ms'' (duration_ms e 0) kvs)) = Inl x"
    by blast
  have t: "exit_code (fst (health e c FormatText w)) = 1"
    by (simp add: health_def health_try_def gw dict_set_def x handle_sdk_error_def)
  from health_try_payload [OF g, of FormatJson] assms(4) obtain out
    where "fst (health_try e c FormatJson w) = Inr \<lparr>exit_code = 2, stdout = out\<rparr>"
    by auto
  then have j: "exit_code (fst (health e c FormatJson w)) = 2"
    by (cases "health_try e c FormatJson w") (simp add: health_def)
  from g t j show ?thesis by simp
qed

theorem health_degraded_text_exit_witness:
  "fst (get_health
          (quiet_env (answer 200 ''{\"status\":\"degraded\",\"components\":null}''
             (Some (JObj [(''status'', JStr ''degraded''), (''components'', JNull)]))) (\<lambda>p. None))
          local_client empty_world)
     = Inr (JObj [(''status'', JStr ''degraded''), (''components'', JNull)])
   \<and> exit_code (fst (health
          (quiet_env (answer 200 ''{\"status\":\"degraded\",\"components\":null}''
             (Some (JObj [(''status'', JStr ''degraded''), (''components'', JNull)]))) (\<lambda>p. None))
          local_client FormatText empty_world)) = 1"
proof -
  let ?kvs = "[(''status'', JStr ''degraded''), (''components'', JNull)]"
  let ?body = "''{\"status\":\"degraded\",\"components\":null}''"
  let ?e = "quiet_env (answer 200 ?body (Some (JObj ?kvs))) (\<lambda>p. None)"
  let ?r = "\<lparr>status_code = 200, raw_text = ?body, json_result = Some (JObj ?kvs)\<rparr>"
  have 1: "server ?e (sent empty_world) (build_request local_client ''GET'' ''/health'' no_kwargs)
      = Inr ?r"
    by (simp add: quiet_env_def answer_def)
  have 2: "status_code ?r = 200" by simp
  have 3: "json_result ?r = Some (JObj ?kvs)" by simp
  have 4: "map_of ?kvs ''status'' \<noteq> Some (JStr ''healthy'')" by simp
  have 5: "\<not> health_payload ?kvs"
    by (simp add: health_payload_def member_is_def is_obj_def)
  from health_degraded_text_exit [OF 1 2 3 4 5] show ?thesis by simp
qed

section \<open>The repeated commands\<close>

lemma loop_step_go_on:
  assumes "repeat \<noteq> 1"
  shows "loop_step e repeat body i st w =
     (st\<lparr>results_data := results_data st @ attempt_records e (i, fst (body i w)),
         overall_success := overall_success st \<and> \<not> failed (fst (body i w))\<rparr>,
      snd (body i w))"
  using assms
  by (cases "body i w")
    (auto simp: loop_step_def handle_sdk_error_def attempt_records_def failed_def Let_def
      split: option.splits)

lemma repeat_loop_go_on:
  assumes "repeat \<noteq> 1" and "exited st = None"
  shows "repeat_loop e repeat body is st w =
     (st\<lparr>results_data := results_data st
             @ concat (map (attempt_records e) (zip is (fst (attempts body is w)))),
         overall_success := overall_success st \<and> (\<forall>out \<in> set (fst (attempts body is w)). \<not> failed out)\<rparr>,
      snd (attempts body is w))"
  using assms(2)
proof (induction "is" arbitrary: st w)
  case Nil
  then show ?case by simp
next
  case (Cons i rest)
  obtain out w' where b: "body i w = (out, w')" by (cases "body i w")
  obtain outs w'' where a: "attempts body rest w' = (outs, w'')" by (cases "attempts body rest w'")
  let ?st = "st\<lparr>results_data := results_data st @ attempt_records e (i, out),
         overall_success := overall_success st \<and> \<not> failed out\<rparr>"
  have s: "loop_step e repeat body i st w = (?st, w')"
    using loop_step_go_on [OF assms(1), of e body i st w] by (simp add: b)
  have e: "exited ?st = None" using Cons.prems by simp
  show ?case
    using Cons.IH [OF e, of w'] by (simp add: s b a e conj_assoc)
qed

lemma attempts_length: "length (fst (attempts body is w)) = length is"
proof (induction "is" arbitrary: w)
  case Nil
  then show ?case by simp
next
  case (Cons i rest)
  then show ?case by (simp split: prod.splits)
      (metis fst_conv)
qed


lemma attempts_all:
  assumes "\<And>i w. P (fst (body i w))"
  shows "\<forall>out \<in> set (fst (attempts body is w)). P out"
proof (induction "is" arbitrary: w)
  case Nil
  then show ?case by simp
next
  case (Cons i rest)
  obtain out w' where b: "body i w = (out, w')" by (cases "body i w")
  obtain outs w'' where a: "attempts body rest w' = (outs, w'')" by (cases "attempts body rest w'")
  have "P out" using assms [of i w] by (simp add: b)
  moreover have "\<forall>out' \<in> set outs. P out'" using Cons.IH [of w'] by (simp add: a)
  ultimately show ?case by (simp add: b a)
qed

lemma record_success_success: "record_success (success_record result)"
  by (simp add: record_success_def success_record_def dict_get_def)

lemma record_success_failure: "\<not> record_success (failure_record m t)"
  by (simp add: record_success_def failure_record_def dict_get_def)

lemma clean_records:
  assumes "clean out"
  shows "\<exists>rec. attempt_records e (i, out) = [rec] \<and> record_success rec = (\<not> failed out)"
proof (cases out)
  case (Pair added x)
  show ?thesis
  proof (cases x)
    case None
    with Pair assms show ?thesis
      by (auto simp: clean_def attempt_records_def failed_def record_success_success)
  next
    case (Some y)
    with Pair assms show ?thesis
      by (auto simp: clean_def attempt_records_def failed_def record_success_failure)
  qed
qed

lemma clean_records_all:
  assumes "length is = length outs" and "\<forall>out \<in> set outs. clean out"
  shows "length (concat (map (attempt_records e) (zip is outs))) = length outs
       \<and> map record_success (concat (map (attempt_records e) (zip is outs)))
           = map (\<lambda>out. \<not> failed out) outs"
  using assms
proof (induction "is" outs rule: list_induct2)
  case Nil
  then show ?case by simp
next
  case (Cons i rest out outs)
  from clean_records [of out e i] Cons.prems obtain rec
    where r: "attempt_records e (i, out) = [rec]" "record_success rec = (\<not> failed out)"
    by auto
  with Cons show ?case by simp
qed

lemma batch_outcome_repeat_command:
  assumes "1 < n" and "\<And>i w. clean (fst (body i w))"
  shows "batch_outcome n fmt body w (repeat_command e n fmt body w)"
proof -
  let ?is = "[0 ..< nat n]"
  obtain outs w' where a: "attempts body ?is w = (outs, w')" by (cases "attempts body ?is w")
  have len: "length ?is = length outs"
    using attempts_length [of body ?is w] by (simp add: a)
  have cl: "\<forall>out \<in> set outs. clean out"
    using attempts_all [of clean body ?is w, OF assms(2)] by (simp add: a)
  note recs = clean_records_all [OF len cl, of e]
  have ne: "n \<noteq> 1" using assms(1) by simp
  have loop: "repeat_loop e n body ?is loop_init w =
     (\<lparr>exited = None,
       results_data = concat (map (attempt_records e) (zip ?is outs)),
       overall_success = (\<forall>out \<in> set outs. \<not> failed out)\<rparr>, w')"
    using repeat_loop_go_on [OF ne, of loop_init e body ?is w]
    by (simp add: a loop_init_def)
  have lenn: "length outs = nat n" using len by simp
  show ?thesis
    using recs assms(1)
    by (simp add: batch_outcome_def a repeat_command_def loop repeat_finish_def lenn)
qed

lemma single_outcome_repeat_command:
  "single_outcome body w (repeat_command e 1 fmt body w)"
proof -
  obtain added x w' where b: "body 0 w = ((added, x), w')" by (cases "body 0 w") auto
  show ?thesis
    by (cases x)
      (simp_all add: single_outcome_def b repeat_command_def loop_step_def handle_sdk_error_def
        repeat_finish_def loop_init_def failed_def Let_def)
qed


lemma make_request_from_server:
  "fst (make_request e c meth ep kw w) = Inr r \<Longrightarrow>
     server e (sent w) (build_request c meth ep kw) = Inr r"
  by (auto simp: make_request_def Let_def split: sum.splits transport_exn.splits if_splits)

lemma request_json_from_server:
  assumes "fst (request_json e c meth ep kw w) = Inr j"
  shows "\<exists>r. server e (sent w) (build_request c meth ep kw) = Inr r \<and> json_result r = Some j"
proof -
  obtain res w' where m: "make_request e c meth ep kw w = (res, w')"
    by (cases "make_request e c meth ep kw w")
  with assms obtain r where r: "res = Inr r" "response_json r = Inr j"
    by (cases res) (auto simp: request_json_def)
  have "server e (sent w) (build_request c meth ep kw) = Inr r"
    using make_request_from_server [of e c meth ep kw w r] m r(1) by simp
  moreover have "json_result r = Some j"
    using r(2) by (auto simp: response_json_def split: option.splits)
  ultimately show ?thesis by blast
qed

lemma upload_from_server:
  assumes "fst (upload e c p w) = Inr j"
  shows "\<exists>h q r. server e h q = Inr r \<and> json_result r = Some j"
proof -
  from assms have "\<exists>kw w'. request_json e c ''POST'' ''/upload'' kw w = (Inr j, w')"
    by (auto simp: upload_def Let_def print_warning_def
        split: if_splits sum.splits prod.splits option.splits)
  then obtain kw w' where "request_json e c ''POST'' ''/upload'' kw w = (Inr j, w')"
    by blast
  then have "fst (request_json e c ''POST'' ''/upload'' kw w) = Inr j"
    by simp
  from request_json_from_server [OF this] show ?thesis by blast
qed

lemma upload_text_payload:
  "member_is is_str kvs ''status'' \<Longrightarrow>
     upload_text (JObj (AList.update ''upload_time_ms'' t kvs)) = Inr ()"
  by (auto simp: upload_text_def member_is_def dict_get_default_def py_upper_def is_str_def
      update_conv' split: option.splits json.splits)

lemma upload_try_clean:
  assumes "fmt = FormatJson
     \<or> (\<forall>h q r j. server e h q = Inr r \<longrightarrow> json_result r = Some j \<longrightarrow> upload_payload j)"
  shows "clean (fst (upload_try e c p fmt i w))"
proof -
  obtain res w' where u: "upload e c p w = (res, w')" by (cases "upload e c p w")
  show ?thesis
  proof (cases res)
    case (Inl x)
    then show ?thesis by (simp add: upload_try_def u clean_def)
  next
    case (Inr j)
    show ?thesis
    proof (cases "\<exists>kvs. j = JObj kvs")
      case False
      then have "\<exists>x. dict_set j ''upload_time_ms'' (duration_ms e i) = Inl x"
        by (cases j) (simp_all add: dict_set_def)
      then show ?thesis using Inr by (auto simp: upload_try_def u clean_def)
    next
      case True
      then obtain kvs where j: "j = JObj kvs" by blast
      have t: "(if fmt = FormatText
                then upload_text (JObj (AList.update ''upload_time_ms'' (duration_ms e i) kvs))
                else Inr ()) = Inr ()"
      proof (cases fmt)
        case FormatText
        have "fst (upload e c p w) = Inr j" using u Inr by simp
        from upload_from_server [OF this] obtain h q r
          where "server e h q = Inr r" "json_result r = Some j" by blast
        with assms FormatText have "upload_payload j" by blast
        then show ?thesis using j by (simp add: upload_payload_def upload_text_payload)
      next
        case FormatJson
        then show ?thesis by simp
      qed
      show ?thesis using Inr j t
        by (auto simp: upload_try_def u clean_def dict_set_def)
    qed
  qed
qed

lemma download_try_clean: "clean (fst (download_try e c h d name n i w))"
  by (auto simp: download_try_def clean_def Let_def split: prod.splits sum.splits)

text \<open>
  Where the policy of the repeated commands holds as a whole: for \<^verbatim>\<open>download\<close> always,
  and for \<^verbatim>\<open>upload\<close> when the output format is JSON or the upload results are typed as
  the wire contract has them (the status a string). With repeat count 1, a failing
  attempt ends the process at once with exit code 1. With a repeat count \<open>n\<close> above 1,
  all \<open>n\<close> attempts run whatever their outcomes, \<^verbatim>\<open>results_data\<close> gets one record per
  attempt, flagged with the attempt's success, and the exit code is 1 exactly when an
  attempt failed.
\<close>

theorem repeat_policy:
  assumes "fmt = FormatJson
     \<or> (\<forall>h q r j. server e h q = Inr r \<longrightarrow> json_result r = Some j \<longrightarrow> upload_payload j)"
  shows "single_outcome (upload_try e c p fmt) w (upload_cmd e c p 1 fmt w)
       \<and> single_outcome (download_try e c h d name 1) w (download_cmd e c h d name 1 fmt w)
       \<and> (1 < n \<longrightarrow>
             batch_outcome n fmt (upload_try e c p fmt) w (upload_cmd e c p n fmt w)
           \<and> batch_outcome n fmt (download_try e c h d name n) w
                 (download_cmd e c h d name n fmt w))"
  using upload_try_clean [OF assms]
  by (simp add: upload_cmd_def download_cmd_def single_outcome_repeat_command
      batch_outcome_repeat_command download_try_clean)

lemma upt3: "[0 ..< 3] = [0, 1, 2::nat]"
  by code_simp

lemmas run_defs = upload_try_def upload_def isfile_def open_rb_def request_json_def make_request_def
  build_request_def request_url_def no_kwargs_def ok_def response_json_def raise_for_response_def
  error_detail_def APIError_init_def py_or_def upload_except_def dict_set_def upload_text_def
  dict_get_default_def py_upper_def quiet_env_def flaky_def empty_world_def local_client_def
  PermastoreItClient_def failed_def Let_def basename_def str_int_def

theorem repeat_policy_witness:
  "exit_code (fst (fst (upload_cmd (quiet_env flaky (\<lambda>p. Some ''text/plain'')) local_client
       ''notes.txt'' 3 FormatText (empty_world\<lparr>disk := [''notes.txt'' \<mapsto> ''hello'']\<rparr>)))) = 1
   \<and> map record_success (results_data (snd (fst (upload_cmd
       (quiet_env flaky (\<lambda>p. Some ''text/plain'')) local_client
       ''notes.txt'' 3 FormatText (empty_world\<lparr>disk := [''notes.txt'' \<mapsto> ''hello'']\<rparr>)))))
       = [True, False, True]
   \<and> length (sent (snd (upload_cmd (quiet_env flaky (\<lambda>p. Some ''text/plain'')) local_client
       ''notes.txt'' 3 FormatText (empty_world\<lparr>disk := [''notes.txt'' \<mapsto> ''hello'']\<rparr>)))) = 3
   \<and> exit_code (fst (fst (download_cmd (quiet_env (answer 404 [] None) (\<lambda>p. None)) local_client
       ''abc'' ''out'' None 1 FormatJson empty_world))) = 1
   \<and> stdout (fst (fst (download_cmd (quiet_env (answer 404 [] None) (\<lambda>p. None)) local_client
       ''abc'' ''out'' None 1 FormatJson empty_world))) = []"
proof -
  let ?e = "quiet_env flaky (\<lambda>p. Some ''text/plain'')"
  let ?w = "empty_world\<lparr>disk := [''notes.txt'' \<mapsto> ''hello'']\<rparr>"
  let ?body = "upload_try ?e local_client ''notes.txt'' FormatText"
  let ?run = "upload_cmd ?e local_client ''notes.txt'' 3 FormatText ?w"
  let ?d = "quiet_env (answer 404 [] None) (\<lambda>p. None)"
  have shape: "FormatText = FormatJson
     \<or> (\<forall>h q r j. server ?e h q = Inr r \<longrightarrow> json_result r = Some j \<longrightarrow> upload_payload j)"
    by (auto simp: quiet_env_def flaky_def upload_payload_def member_is_def is_str_def
        split: if_splits)
  have f: "map failed (fst (attempts ?body [0 ..< nat 3] ?w)) = [False, True, False]"
    by (simp add: upt3 run_defs)
  have n: "length (sent (snd (attempts ?body [0 ..< nat 3] ?w))) = 3"
    by (simp add: upt3 run_defs)
  have "batch_outcome 3 FormatText ?body ?w ?run"
    using repeat_policy [OF shape, of local_client "''notes.txt''" ?w "''abc''" "''out''" None 3]
    by simp
  then have up: "exit_code (fst (fst ?run)) = 1
      \<and> map record_success (results_data (snd (fst ?run))) = [True, False, True]
      \<and> length (sent (snd ?run)) = 3"
    using f n
    by (cases "attempts ?body [0 ..< nat 3] ?w")
      (auto simp: batch_outcome_def map_eq_Cons_conv)
  have dshape: "FormatJson = FormatJson
     \<or> (\<forall>h q r j. server ?d h q = Inr r \<longrightarrow> json_result r = Some j \<longrightarrow> upload_payload j)"
    by simp
  have df: "failed (fst (download_try ?d local_client ''abc'' ''out'' None 1 0 empty_world))"
    by (simp add: download_try_def download_def make_request_def build_request_def ok_def
        quiet_env_def answer_def download_except_def failed_def no_kwargs_def Let_def
        split: prod.splits)
  have "single_outcome (download_try ?d local_client ''abc'' ''out'' None 1) empty_world
          (download_cmd ?d local_client ''abc'' ''out'' None 1 FormatJson empty_world)"
    using repeat_policy [OF dshape, of local_client "''notes.txt''" empty_world "''abc''" "''out''"
        None 3]
    by simp
  then have down: "exit_code (fst (fst (download_cmd ?d local_client ''abc'' ''out'' None 1
          FormatJson empty_world))) = 1
      \<and> stdout (fst (fst (download_cmd ?d local_client ''abc'' ''out'' None 1
          FormatJson empty_world))) = []"
    using df
    by (cases "download_try ?d local_client ''abc'' ''out'' None 1 0 empty_world")
      (simp add: single_outcome_def)
  from up down show ?thesis by simp
qed




section \<open>The bulk upload\<close>







end
